theory Spec2Isabelle
  imports Complex_Main
begin

section \<open>Python values and helpers shared by the embedded modules\<close>

text \<open>
  The repository is Python.  Strings are \<^typ>\<open>string\<close>, read as ASCII text.  A float
  that is only compared, or that comes out of integer arithmetic which is exact in
  binary floating point (the size of a file, the score given to the match level, the
  completion percentage), is a \<^typ>\<open>real\<close>.  The scores that the matcher and the
  aggregators multiply, add and round are IEEE doubles, with every operation rounded as
  the hardware rounds it; they have a section of their own below.
\<close>

text \<open>Python's \<^verbatim>\<open>round(x, 2)\<close>: to the nearest multiple of 0.01, a tie going to the even one.\<close>

definition py_round_int :: "real \<Rightarrow> int" where
  "py_round_int y =
     (let f = \<lfloor>y\<rfloor>; d = y - of_int f
      in if d < 1 / 2 then f
         else if 1 / 2 < d then f + 1
         else if even f then f else f + 1)"

definition round2 :: "real \<Rightarrow> real" where
  "round2 x = of_int (py_round_int (x * 100)) / 100"

text \<open>\<^verbatim>\<open>str.lower()\<close> on ASCII text.\<close>

definition py_lower_char :: "char \<Rightarrow> char" where
  "py_lower_char c =
     (case map_of (zip ''ABCDEFGHIJKLMNOPQRSTUVWXYZ'' ''abcdefghijklmnopqrstuvwxyz'') c of
        Some l \<Rightarrow> l
      | None \<Rightarrow> c)"

definition py_lower :: "string \<Rightarrow> string" where
  "py_lower s = map py_lower_char s"

text \<open>\<^verbatim>\<open>sep.join(xs)\<close>.\<close>

fun py_join :: "string \<Rightarrow> string list \<Rightarrow> string" where
  "py_join sep [] = []"
| "py_join sep [x] = x"
| "py_join sep (x # y # ys) = x @ sep @ py_join sep (y # ys)"

text \<open>\<^verbatim>\<open>c.isalnum()\<close> and \<^verbatim>\<open>c.isspace()\<close> on ASCII characters.\<close>

definition py_isalnum :: "char \<Rightarrow> bool" where
  "py_isalnum c \<longleftrightarrow>
     c \<in> set ''abcdefghijklmnopqrstuvwxyzABCDEFGHIJKLMNOPQRSTUVWXYZ0123456789''"

definition py_isspace :: "char \<Rightarrow> bool" where
  "py_isspace c \<longleftrightarrow>
     c \<in> set [CHR '' '', CHR 0x09, CHR 0x0A, CHR 0x0B, CHR 0x0C, CHR 0x0D,
               CHR 0x1C, CHR 0x1D, CHR 0x1E, CHR 0x1F]"

text \<open>\<^verbatim>\<open>s.split()\<close>: the maximal runs of characters that are not whitespace.\<close>

fun split_from :: "string \<Rightarrow> string \<Rightarrow> string list" where
  "split_from cur [] = (if cur = [] then [] else [cur])"
| "split_from cur (c # cs) =
     (if py_isspace c then (if cur = [] then split_from [] cs else cur # split_from [] cs)
      else split_from (cur @ [c]) cs)"

definition py_split :: "string \<Rightarrow> string list" where
  "py_split s = split_from [] s"

text \<open>\<^verbatim>\<open>s.startswith(p)\<close> and the substring test \<^verbatim>\<open>needle in s\<close>.\<close>

definition starts_with :: "string \<Rightarrow> string \<Rightarrow> bool" where
  "starts_with s p \<longleftrightarrow> take (length p) s = p"

fun py_contains :: "string \<Rightarrow> string \<Rightarrow> bool" where
  "py_contains [] needle = (needle = [])"
| "py_contains (c # cs) needle = (starts_with (c # cs) needle \<or> py_contains cs needle)"

text \<open>
  \<^verbatim>\<open>s.replace(old, new)\<close>: the occurrences of \<open>old\<close> are found from the left and do not
  overlap.  \<open>replace_from\<close> walks the string; its counter is the number of characters of
  the occurrence just replaced that are still to be skipped.  An empty \<open>old\<close> matches
  before every character and at the end.
\<close>

fun replace_from :: "string \<Rightarrow> string \<Rightarrow> nat \<Rightarrow> string \<Rightarrow> string" where
  "replace_from old new k [] = []"
| "replace_from old new (Suc k) (c # cs) = replace_from old new k cs"
| "replace_from old new 0 (c # cs) =
     (if starts_with (c # cs) old then new @ replace_from old new (length old - 1) cs
      else c # replace_from old new 0 cs)"

definition py_replace :: "string \<Rightarrow> string \<Rightarrow> string \<Rightarrow> string" where
  "py_replace s old new =
     (if old = [] then new @ concat (map (\<lambda>c. c # new) s) else replace_from old new 0 s)"

text \<open>The result mapping \<^verbatim>\<open>{'valid': ..., 'issues': [...]}\<close> of the rule engine.\<close>

record validation =
  valid :: bool
  issues :: "string list"

section \<open>utils/ats\_rules.py: the format rules\<close>

definition allowed_formats :: "string list" where
  "allowed_formats = [''.pdf'', ''.docx'']"

definition max_file_size_mb :: real where
  "max_file_size_mb = 10"

text \<open>
  \<^verbatim>\<open>ATSRules.validate_format\<close>: the two checks run one after the other, each appending
  its own message to \<^verbatim>\<open>issues\<close>.
\<close>

definition validate_format :: "string \<Rightarrow> real \<Rightarrow> validation" where
  "validate_format file_format file_size_mb =
     (let issues0 = [];
          issues1 = (if py_lower file_format \<notin> set allowed_formats
                     then issues0 @ [''Unsupported format. Use '' @ py_join '', '' allowed_formats]
                     else issues0);
          issues2 = (if file_size_mb > max_file_size_mb
                     then issues1 @ [''File too large. Maximum size is 10MB'']
                     else issues1)
      in \<lparr>valid = (length issues2 = 0), issues = issues2\<rparr>)"

section \<open>utils/ats\_rules.py: the structure rules\<close>

text \<open>\<^verbatim>\<open>structure_rules['required_sections']\<close> and \<^verbatim>\<open>structure_rules['section_titles']\<close>.\<close>

definition required_sections :: "string list" where
  "required_sections =
     [''contact_information'', ''professional_experience'', ''education'', ''skills'']"

definition section_titles :: "(string \<times> string list) list" where
  "section_titles =
     [(''contact'', [''contact'', ''contact information'', ''personal information'',
                     ''personal details'', ''personal info'']),
      (''experience'', [''experience'', ''work experience'', ''professional experience'',
                        ''work history'', ''employment history'', ''professional background'']),
      (''education'', [''education'', ''academic background'', ''qualifications'',
                       ''academic qualifications'', ''educational background'']),
      (''skills'', [''skills'', ''technical skills'', ''competencies'', ''key skills'',
                    ''core competencies'', ''professional skills''])]"

text \<open>The table \<^verbatim>\<open>replacements\<close> of \<^verbatim>\<open>_normalize_section_title\<close>, in its order.\<close>

definition replacements :: "(string \<times> string) list" where
  "replacements =
     [(''edu'', ''education''), (''academic'', ''education''), (''qualification'', ''education''),
      (''exp'', ''experience''), (''professional'', ''experience''),
      (''employment'', ''experience''), (''work'', ''experience''),
      (''comp'', ''competencies''), (''tech'', ''technical'')]"

text \<open>
  \<^verbatim>\<open>ATSRules._normalize_section_title\<close>: keep the alphanumeric and whitespace
  characters, lower-cased; collapse whitespace; then apply every replacement whose key
  occurs, one after the other, each to the result of the one before.
\<close>

definition normalize_section_title :: "string \<Rightarrow> string" where
  "normalize_section_title title =
     (let kept = map py_lower_char (filter (\<lambda>c. py_isalnum c \<or> py_isspace c) title);
          collapsed = py_join '' '' (py_split kept)
      in foldl (\<lambda>normalized (old, new).
                  if py_contains normalized old then py_replace normalized old new
                  else normalized)
               collapsed replacements)"

text \<open>
  The body of the loop of \<^verbatim>\<open>validate_structure\<close> for one required section.  The
  section type is the first key of \<^verbatim>\<open>section_titles\<close> that contains the required name
  with its underscores removed; when there is none, nothing is checked for it.
\<close>

definition check_required :: "string list \<Rightarrow> string list \<Rightarrow> string \<Rightarrow> string list" where
  "check_required normalized_sections issues_so_far required =
     (case find (\<lambda>(stype, variants). py_contains stype (py_replace required ''_'' []))
                section_titles of
        None \<Rightarrow> issues_so_far
      | Some (section_type, titles) \<Rightarrow>
          if section_type \<noteq> [] then
            (let variants = map normalize_section_title titles
             in if \<not> list_ex (\<lambda>variant. list_ex (\<lambda>section. py_contains section variant)
                                                  normalized_sections) variants
                then issues_so_far @ [''Missing required section: '' @ required]
                else issues_so_far)
          else issues_so_far)"

text \<open>\<^verbatim>\<open>ATSRules.validate_structure\<close>.\<close>

definition validate_structure :: "string list \<Rightarrow> validation" where
  "validate_structure sections =
     (let normalized_sections = map normalize_section_title sections;
          all_issues = foldl (check_required normalized_sections) [] required_sections
      in \<lparr>valid = (length all_issues = 0), issues = all_issues\<rparr>)"

section \<open>Floating-point numbers\<close>

text \<open>
  A Python float is an IEEE 754 double.  A finite double is kept as the real number it
  is; \<open>fl\<close> rounds a real to the nearest double, a tie going to the even significand.
  The doubles of magnitude between \<open>2 ^ e\<close> and \<open>2 ^ (e + 1)\<close> are the multiples of
  \<open>2 ^ (e - 52)\<close>, and below \<open>2 ^ (- 1022)\<close> the multiples of \<open>2 ^ (- 1074)\<close>.  The
  exponent is found by halving or doubling; the bound on the number of steps is never
  reached between the smallest and the largest double, and beyond them the outcome of
  the rounding does not depend on it.  The sign of a zero is not kept.
\<close>

definition pow2 :: "int \<Rightarrow> real" where
  "pow2 n = (if 0 \<le> n then 2 ^ nat n else 1 / 2 ^ nat (- n))"

fun exponent_from :: "nat \<Rightarrow> real \<Rightarrow> int \<Rightarrow> int" where
  "exponent_from 0 x e = e"
| "exponent_from (Suc n) x e =
     (if x \<ge> 2 then exponent_from n (x / 2) (e + 1)
      else if x < 1 then exponent_from n (x * 2) (e - 1)
      else e)"

definition exponent_of :: "real \<Rightarrow> int" where
  "exponent_of x = exponent_from 2200 \<bar>x\<bar> 0"

definition fl :: "real \<Rightarrow> real" where
  "fl x =
     (if x = 0 then 0
      else (let q = pow2 (max (exponent_of x) (- 1022) - 52)
            in of_int (py_round_int (x / q)) * q))"

text \<open>
  The values of a float.  \<open>Fin x\<close> stands for the double nearest to \<open>x\<close>, as a decimal
  literal does in Python; \<open>to_float\<close> makes the value of a real, which is an infinity
  when the rounded magnitude reaches \<open>2 ^ 1024\<close>.
\<close>

datatype pyfloat = Fin real | PosInf | NegInf | NaN

definition to_float :: "real \<Rightarrow> pyfloat" where
  "to_float x =
     (let r = fl x
      in if r \<ge> pow2 1024 then PosInf else if r \<le> - pow2 1024 then NegInf else Fin r)"

fun norm_float :: "pyfloat \<Rightarrow> pyfloat" where
  "norm_float (Fin x) = to_float x"
| "norm_float f = f"

text \<open>Multiplication and addition of floats: the exact result rounded, with the IEEE rules for infinities and NaN.\<close>

fun mul_norm :: "pyfloat \<Rightarrow> pyfloat \<Rightarrow> pyfloat" where
  "mul_norm NaN b = NaN"
| "mul_norm a NaN = NaN"
| "mul_norm (Fin x) (Fin y) = to_float (x * y)"
| "mul_norm (Fin x) PosInf = (if x = 0 then NaN else if x > 0 then PosInf else NegInf)"
| "mul_norm (Fin x) NegInf = (if x = 0 then NaN else if x > 0 then NegInf else PosInf)"
| "mul_norm PosInf (Fin y) = (if y = 0 then NaN else if y > 0 then PosInf else NegInf)"
| "mul_norm NegInf (Fin y) = (if y = 0 then NaN else if y > 0 then NegInf else PosInf)"
| "mul_norm PosInf PosInf = PosInf"
| "mul_norm PosInf NegInf = NegInf"
| "mul_norm NegInf PosInf = NegInf"
| "mul_norm NegInf NegInf = PosInf"

definition fmul :: "pyfloat \<Rightarrow> pyfloat \<Rightarrow> pyfloat" where
  "fmul a b = mul_norm (norm_float a) (norm_float b)"

fun add_norm :: "pyfloat \<Rightarrow> pyfloat \<Rightarrow> pyfloat" where
  "add_norm NaN b = NaN"
| "add_norm a NaN = NaN"
| "add_norm (Fin x) (Fin y) = to_float (x + y)"
| "add_norm (Fin x) PosInf = PosInf"
| "add_norm (Fin x) NegInf = NegInf"
| "add_norm PosInf (Fin y) = PosInf"
| "add_norm NegInf (Fin y) = NegInf"
| "add_norm PosInf PosInf = PosInf"
| "add_norm PosInf NegInf = NaN"
| "add_norm NegInf PosInf = NaN"
| "add_norm NegInf NegInf = NegInf"

definition fadd :: "pyfloat \<Rightarrow> pyfloat \<Rightarrow> pyfloat" where
  "fadd a b = add_norm (norm_float a) (norm_float b)"

text \<open>The comparison \<^verbatim>\<open>a >= b\<close>: false as soon as one side is NaN.\<close>

fun ge_norm :: "pyfloat \<Rightarrow> pyfloat \<Rightarrow> bool" where
  "ge_norm NaN b = False"
| "ge_norm a NaN = False"
| "ge_norm (Fin x) (Fin y) = (x \<ge> y)"
| "ge_norm PosInf b = True"
| "ge_norm a NegInf = True"
| "ge_norm (Fin x) PosInf = False"
| "ge_norm NegInf b = False"

definition fge :: "pyfloat \<Rightarrow> pyfloat \<Rightarrow> bool" where
  "fge a b = ge_norm (norm_float a) (norm_float b)"

text \<open>
  \<^verbatim>\<open>round(x, 2)\<close> on a float: the exact value of the double is rounded to two
  decimals, a tie going to the even digit, and the double nearest to that decimal is
  returned; infinities and NaN are returned as they are.
\<close>

fun round2_norm :: "pyfloat \<Rightarrow> pyfloat" where
  "round2_norm (Fin x) = to_float (of_int (py_round_int (x * 100)) / 100)"
| "round2_norm f = f"

definition float_round2 :: "pyfloat \<Rightarrow> pyfloat" where
  "float_round2 a = round2_norm (norm_float a)"

section \<open>Dynamically typed values\<close>

text \<open>
  The mappings that travel between the agents are Python dictionaries holding whatever
  the language model returned, so their values are modelled by one datatype of Python
  values.  Dictionaries are association lists in insertion order, with string keys.
  \<open>PFloat x\<close> is the float a literal \<open>x\<close> denotes: the double nearest to \<open>x\<close>, an
  infinity when \<open>x\<close> is too large.  NaN is not among these values.
\<close>

datatype pyval =
    PNone
  | PBool bool
  | PInt int
  | PFloat real
  | PStr string
  | PList "pyval list"
  | PDict "(string \<times> pyval) list"

text \<open>
  The exceptions the embedded code can raise.  \<open>CVProcessingError err\<close> is the
  \<^verbatim>\<open>ValueError(f"Failed to process CV: {err}")\<close> of the workflow manager, kept with the
  value it formats.
\<close>

datatype exn =
    KeyError string
  | TypeError
  | AttributeError
  | ValueError string
  | CVProcessingError pyval
  | JSONDecodeError
  | APIError string
  | Exception string
  | ZeroDivisionError
  | OverflowError

text \<open>Sequencing of computations that may raise: the first exception wins.\<close>

definition bind_exn :: "exn + 'a \<Rightarrow> ('a \<Rightarrow> exn + 'b) \<Rightarrow> exn + 'b" where
  "bind_exn m f = (case m of Inl e \<Rightarrow> Inl e | Inr x \<Rightarrow> f x)"

text \<open>\<^verbatim>\<open>d[key]\<close>: a missing key raises KeyError; subscripting a non-mapping with a string raises TypeError.\<close>

definition py_getitem :: "pyval \<Rightarrow> string \<Rightarrow> exn + pyval" where
  "py_getitem d k =
     (case d of
        PDict kvs \<Rightarrow> (case map_of kvs k of Some v \<Rightarrow> Inr v | None \<Rightarrow> Inl (KeyError k))
      | _ \<Rightarrow> Inl TypeError)"

text \<open>\<^verbatim>\<open>d.get(key, default)\<close>: only a dictionary has the method.\<close>

definition py_get :: "pyval \<Rightarrow> string \<Rightarrow> pyval \<Rightarrow> exn + pyval" where
  "py_get d k dflt =
     (case d of
        PDict kvs \<Rightarrow> (case map_of kvs k of Some v \<Rightarrow> Inr v | None \<Rightarrow> Inr dflt)
      | _ \<Rightarrow> Inl AttributeError)"

text \<open>Truthiness, as \<^verbatim>\<open>if v:\<close> tests it.\<close>

definition py_truthy :: "pyval \<Rightarrow> bool" where
  "py_truthy v =
     (case v of
        PNone \<Rightarrow> False
      | PBool b \<Rightarrow> b
      | PInt i \<Rightarrow> i \<noteq> 0
      | PFloat r \<Rightarrow> fl r \<noteq> 0
      | PStr s \<Rightarrow> s \<noteq> []
      | PList xs \<Rightarrow> xs \<noteq> []
      | PDict kvs \<Rightarrow> kvs \<noteq> [])"

text \<open>Reading a weight table at a key it holds.\<close>

definition weight_of :: "(string \<times> real) list \<Rightarrow> string \<Rightarrow> real" where
  "weight_of tbl k = (case map_of tbl k of Some w \<Rightarrow> w | None \<Rightarrow> 0)"

subsection \<open>Floats from integers and from dynamic values\<close>

text \<open>
  \<^verbatim>\<open>a / b\<close> on two integers: the quotient correctly rounded; a zero divisor and a
  quotient too large for a float raise.
\<close>

definition int_truediv :: "int \<Rightarrow> int \<Rightarrow> exn + pyfloat" where
  "int_truediv a b =
     (if b = 0 then Inl ZeroDivisionError
      else (case to_float (real_of_int a / real_of_int b) of
              Fin q \<Rightarrow> Inr (Fin q)
            | _ \<Rightarrow> Inl OverflowError))"

text \<open>
  The float an operand of a float multiplication stands for: a \<^verbatim>\<open>bool\<close> is an
  \<^verbatim>\<open>int\<close>, an \<^verbatim>\<open>int\<close> is converted to the nearest double and raises OverflowError
  when it is too large, every other value raises TypeError.
\<close>

definition float_operand :: "pyval \<Rightarrow> exn + pyfloat" where
  "float_operand v =
     (case v of
        PBool b \<Rightarrow> Inr (Fin (if b then 1 else 0))
      | PInt i \<Rightarrow> (case to_float (of_int i) of Fin r \<Rightarrow> Inr (Fin r) | _ \<Rightarrow> Inl OverflowError)
      | PFloat r \<Rightarrow> Inr (to_float r)
      | _ \<Rightarrow> Inl TypeError)"

section \<open>agents/primary\_agents/cv\_matcher.py: matching a CV against a job\<close>

text \<open>
  \<^verbatim>\<open>set(v)\<close>.  Iterating a list gives its elements, a string its characters, a
  dictionary its keys; anything else is not iterable.  The elements must be hashable,
  which lists and dictionaries are not.  Hashable values are compared as Python compares
  them: numbers by value (\<^verbatim>\<open>True == 1 == 1.0\<close>, a float being the double it is),
  strings by content.
\<close>

datatype atom = ANone | ANum real | APosInf | ANegInf | AStr string

definition py_iter :: "pyval \<Rightarrow> exn + pyval list" where
  "py_iter v =
     (case v of
        PList xs \<Rightarrow> Inr xs
      | PStr s \<Rightarrow> Inr (map (\<lambda>c. PStr [c]) s)
      | PDict kvs \<Rightarrow> Inr (map (\<lambda>kv. PStr (fst kv)) kvs)
      | _ \<Rightarrow> Inl TypeError)"

definition py_hashable :: "pyval \<Rightarrow> exn + atom" where
  "py_hashable v =
     (case v of
        PNone \<Rightarrow> Inr ANone
      | PBool b \<Rightarrow> Inr (ANum (if b then 1 else 0))
      | PInt i \<Rightarrow> Inr (ANum (of_int i))
      | PFloat r \<Rightarrow>
          Inr (case to_float r of Fin x \<Rightarrow> ANum x | NegInf \<Rightarrow> ANegInf | _ \<Rightarrow> APosInf)
      | PStr s \<Rightarrow> Inr (AStr s)
      | _ \<Rightarrow> Inl TypeError)"

fun hash_all :: "pyval list \<Rightarrow> exn + atom list" where
  "hash_all [] = Inr []"
| "hash_all (v # vs) =
     bind_exn (py_hashable v) (\<lambda>a. bind_exn (hash_all vs) (\<lambda>as. Inr (a # as)))"

definition py_set :: "pyval \<Rightarrow> exn + atom set" where
  "py_set v = bind_exn (py_iter v) (\<lambda>xs. bind_exn (hash_all xs) (\<lambda>as. Inr (set as)))"

text \<open>\<^verbatim>\<open>CVMatcher.matching_weights\<close>.\<close>

definition matching_weights :: "(string \<times> real) list" where
  "matching_weights =
     [(''required_skills'', 0.4), (''experience'', 0.3), (''education'', 0.2),
      (''soft_skills'', 0.1)]"

text \<open>
  The three sets read at the start of \<^verbatim>\<open>_calculate_skills_match\<close>.  A \<^verbatim>\<open>.get\<close> on a
  value that is not a dictionary, or a \<^verbatim>\<open>set(...)\<close> of a value that cannot be made a
  set, raises.
\<close>

definition job_required_skills :: "pyval \<Rightarrow> exn + atom set" where
  "job_required_skills job_analysis =
     bind_exn (py_get job_analysis ''requirements'' (PDict [])) (\<lambda>reqs.
     bind_exn (py_get reqs ''required_skills'' (PList [])) py_set)"

definition job_preferred_skills :: "pyval \<Rightarrow> exn + atom set" where
  "job_preferred_skills job_analysis =
     bind_exn (py_get job_analysis ''requirements'' (PDict [])) (\<lambda>reqs.
     bind_exn (py_get reqs ''preferred_skills'' (PList [])) py_set)"

definition cv_technical_skills :: "pyval \<Rightarrow> exn + atom set" where
  "cv_technical_skills cv_analysis =
     bind_exn (py_get cv_analysis ''skills'' (PDict [])) (\<lambda>skills.
     bind_exn (py_get skills ''technical_skills'' (PList [])) py_set)"

text \<open>
  The result of \<^verbatim>\<open>_calculate_skills_match\<close>.  The source turns the four sets into
  lists, in an order Python does not fix; they are kept as sets.
\<close>

record skills_match =
  sm_score :: pyfloat
  matched_required :: "atom set"
  matched_preferred :: "atom set"
  missing_required :: "atom set"
  missing_preferred :: "atom set"

text \<open>
  The score of one requirement set in \<^verbatim>\<open>_calculate_skills_match\<close>: the integer 100
  for an empty set, otherwise \<^verbatim>\<open>(len(matches) / len(requirement)) * 100\<close>.
\<close>

definition recall_score :: "atom set \<Rightarrow> atom set \<Rightarrow> exn + pyfloat" where
  "recall_score matches requirement =
     (if card requirement = 0 then Inr (Fin 100)
      else bind_exn (int_truediv (int (card matches)) (int (card requirement)))
             (\<lambda>ratio. Inr (fmul ratio (Fin 100))))"

text \<open>\<^verbatim>\<open>CVMatcher._calculate_skills_match\<close>; the handler answers any exception with the zero result.\<close>

definition calculate_skills_match :: "pyval \<Rightarrow> pyval \<Rightarrow> skills_match" where
  "calculate_skills_match cv_analysis job_analysis =
     (case
        bind_exn (job_required_skills job_analysis) (\<lambda>required_skills.
        bind_exn (job_preferred_skills job_analysis) (\<lambda>preferred_skills.
        bind_exn (cv_technical_skills cv_analysis) (\<lambda>cv_skills.
        bind_exn (recall_score (cv_skills \<inter> required_skills) required_skills) (\<lambda>required_score.
        bind_exn (recall_score (cv_skills \<inter> preferred_skills) preferred_skills) (\<lambda>preferred_score.
          let total_score = fadd (fmul required_score (Fin 0.7)) (fmul preferred_score (Fin 0.3))
          in Inr \<lparr>sm_score = float_round2 total_score,
                  matched_required = cv_skills \<inter> required_skills,
                  matched_preferred = cv_skills \<inter> preferred_skills,
                  missing_required = required_skills - cv_skills,
                  missing_preferred = preferred_skills - cv_skills\<rparr>)))))
      of
        Inr result \<Rightarrow> result
      | Inl e \<Rightarrow> \<lparr>sm_score = Fin 0, matched_required = {}, matched_preferred = {},
                   missing_required = {}, missing_preferred = {}\<rparr>)"

text \<open>
  \<^verbatim>\<open>CVMatcher._extract_years\<close>: a number is truncated to an integer, a string gives the
  number written by its digits (0 if it has none), anything else 0.  The handler answers
  an exception with 0: an infinite float has no integer, and \<^verbatim>\<open>int\<close> refuses a string
  of more than 4300 digits.
\<close>

definition digit_value :: "char \<Rightarrow> int" where
  "digit_value c =
     (case map_of (zip ''0123456789'' [0, 1, 2, 3, 4, 5, 6, 7, 8, 9]) c of
        Some d \<Rightarrow> d
      | None \<Rightarrow> 0)"

definition py_isdigit :: "char \<Rightarrow> bool" where
  "py_isdigit c \<longleftrightarrow> c \<in> set ''0123456789''"

definition int_of_digits :: "string \<Rightarrow> int" where
  "int_of_digits ds = foldl (\<lambda>n c. n * 10 + digit_value c) 0 ds"

definition max_str_digits :: nat where
  "max_str_digits = 4300"

definition extract_years :: "pyval \<Rightarrow> int" where
  "extract_years v =
     (case v of
        PBool b \<Rightarrow> (if b then 1 else 0)
      | PInt i \<Rightarrow> i
      | PFloat r \<Rightarrow>
          (case to_float r of
             Fin x \<Rightarrow> (if x \<ge> 0 then \<lfloor>x\<rfloor> else \<lceil>x\<rceil>)
           | _ \<Rightarrow> 0)
      | PStr s \<Rightarrow> (let digits = filter py_isdigit s
                   in if digits \<noteq> []
                      then (if length digits > max_str_digits then 0 else int_of_digits digits)
                      else 0)
      | _ \<Rightarrow> 0)"

record experience_match =
  ex_score :: pyfloat
  ex_cv_years :: int
  ex_required_years :: int
  ex_meets_requirement :: bool

text \<open>
  The score shared by the experience and the education match: 100 when nothing is
  required or the requirement is met, otherwise \<^verbatim>\<open>(have / required) * 100\<close> for a
  positive requirement and 0 for a negative one.
\<close>

definition ratio_score :: "int \<Rightarrow> int \<Rightarrow> exn + pyfloat" where
  "ratio_score have required =
     (if required = 0 then Inr (Fin 100)
      else if have \<ge> required then Inr (Fin 100)
      else if required > 0
           then bind_exn (int_truediv have required) (\<lambda>ratio. Inr (fmul ratio (Fin 100)))
           else Inr (Fin 0))"

text \<open>\<^verbatim>\<open>CVMatcher._calculate_experience_match\<close>.\<close>

definition calculate_experience_match :: "pyval \<Rightarrow> pyval \<Rightarrow> experience_match" where
  "calculate_experience_match cv_analysis job_analysis =
     (case
        bind_exn (py_get cv_analysis ''experience'' (PDict [])) (\<lambda>experience.
        bind_exn (py_get experience ''years'' (PInt 0)) (\<lambda>years.
        bind_exn (py_get job_analysis ''requirements'' (PDict [])) (\<lambda>reqs.
        bind_exn (py_get reqs ''experience'' (PInt 0)) (\<lambda>required.
          let cv_years = extract_years years;
              required_years = extract_years required
          in bind_exn (ratio_score cv_years required_years) (\<lambda>score.
             Inr \<lparr>ex_score = float_round2 score,
                  ex_cv_years = cv_years,
                  ex_required_years = required_years,
                  ex_meets_requirement = (cv_years \<ge> required_years)\<rparr>)))))
      of
        Inr result \<Rightarrow> result
      | Inl e \<Rightarrow> \<lparr>ex_score = Fin 0, ex_cv_years = 0, ex_required_years = 0,
                   ex_meets_requirement = False\<rparr>)"

text \<open>The table \<^verbatim>\<open>education_levels\<close>, in its order.\<close>

definition education_levels :: "(string \<times> int) list" where
  "education_levels =
     [(''phd'', 4), (''doctorate'', 4), (''master'', 3), (''bachelor'', 2),
      (''associate'', 1), (''high school'', 0)]"

text \<open>
  \<^verbatim>\<open>str(v)\<close> is the string itself for a string.  For any other value it is the text
  Python prints for it, which the parameter \<open>repr_of\<close> supplies.
\<close>

definition py_str :: "(pyval \<Rightarrow> string) \<Rightarrow> pyval \<Rightarrow> string" where
  "py_str repr_of v = (case v of PStr s \<Rightarrow> s | _ \<Rightarrow> repr_of v)"

text \<open>The highest level whose name occurs in the text, starting from 0.\<close>

definition highest_level :: "string \<Rightarrow> int" where
  "highest_level edu =
     foldl (\<lambda>level (name, score). if py_contains edu name then max level score else level)
           0 education_levels"

record education_match =
  ed_score :: pyfloat
  ed_cv_level :: int
  ed_required_level :: int
  ed_meets_requirement :: bool
  ed_cv_education :: string
  ed_required_education :: string

text \<open>\<^verbatim>\<open>CVMatcher._calculate_education_match\<close>.\<close>

definition calculate_education_match ::
  "(pyval \<Rightarrow> string) \<Rightarrow> pyval \<Rightarrow> pyval \<Rightarrow> education_match" where
  "calculate_education_match repr_of cv_analysis job_analysis =
     (case
        bind_exn (py_get job_analysis ''requirements'' (PDict [])) (\<lambda>reqs.
        bind_exn (py_get reqs ''education'' (PStr [])) (\<lambda>required.
        bind_exn (py_get cv_analysis ''education'' (PStr [])) (\<lambda>cv.
          let required_edu = py_lower (py_str repr_of required);
              cv_edu = py_lower (py_str repr_of cv);
              required_level = highest_level required_edu;
              cv_level = highest_level cv_edu
          in bind_exn (ratio_score cv_level required_level) (\<lambda>score.
             Inr \<lparr>ed_score = float_round2 score,
                  ed_cv_level = cv_level,
                  ed_required_level = required_level,
                  ed_meets_requirement = (cv_level \<ge> required_level),
                  ed_cv_education = cv_edu,
                  ed_required_education = required_edu\<rparr>))))
      of
        Inr result \<Rightarrow> result
      | Inl e \<Rightarrow> \<lparr>ed_score = Fin 0, ed_cv_level = 0, ed_required_level = 0,
                   ed_meets_requirement = False, ed_cv_education = [],
                   ed_required_education = []\<rparr>)"

text \<open>\<^verbatim>\<open>CVMatcher._get_match_level\<close>.\<close>

definition get_match_level :: "real \<Rightarrow> string" where
  "get_match_level score =
     (if score \<ge> 90 then ''Excellent Match''
      else if score \<ge> 75 then ''Strong Match''
      else if score \<ge> 60 then ''Good Match''
      else if score \<ge> 40 then ''Partial Match''
      else ''Low Match'')"

text \<open>
  The match level of a float score: a finite score is compared as a real, an infinite
  one lies above or below every bound, and every comparison with NaN fails.
\<close>

definition float_match_level :: "pyfloat \<Rightarrow> string" where
  "float_match_level score =
     (case norm_float score of
        Fin x \<Rightarrow> get_match_level x
      | PosInf \<Rightarrow> ''Excellent Match''
      | _ \<Rightarrow> ''Low Match'')"

record overall_match =
  om_score :: pyfloat
  om_match_level :: string

record match_analysis =
  overall_match :: overall_match
  skills_match :: skills_match
  experience_match :: experience_match
  education_match :: education_match

text \<open>The weighted sum of \<^verbatim>\<open>match_cv_to_job\<close>, added from the left as Python does.\<close>

definition weighted_match_score :: "pyfloat \<Rightarrow> pyfloat \<Rightarrow> pyfloat \<Rightarrow> pyfloat" where
  "weighted_match_score skills experience education =
     fadd (fadd (fmul skills (Fin (weight_of matching_weights ''required_skills'')))
                (fmul experience (Fin (weight_of matching_weights ''experience''))))
          (fmul education (Fin (weight_of matching_weights ''education'')))"

text \<open>
  \<^verbatim>\<open>CVMatcher.match_cv_to_job\<close>.  The two analyzers call the language model; they are
  parameters that return an analysis or raise, and what they raise is re-raised.  The
  entries \<^verbatim>\<open>confidence\<close> and \<^verbatim>\<open>recommendations\<close> of the result are computed by methods
  that catch their own exceptions and do not enter the score; they are left out of the
  record.
\<close>

definition match_cv_to_job ::
  "(pyval \<Rightarrow> string) \<Rightarrow> (string \<Rightarrow> exn + pyval) \<Rightarrow> (string \<Rightarrow> exn + pyval)
     \<Rightarrow> string \<Rightarrow> string \<Rightarrow> exn + match_analysis" where
  "match_cv_to_job repr_of analyze_cv analyze_job cv_text job_description =
     bind_exn (analyze_cv cv_text) (\<lambda>cv_analysis.
     bind_exn (analyze_job job_description) (\<lambda>job_analysis.
       let skills = calculate_skills_match cv_analysis job_analysis;
           experience = calculate_experience_match cv_analysis job_analysis;
           education = calculate_education_match repr_of cv_analysis job_analysis;
           match_score =
             weighted_match_score (sm_score skills) (ex_score experience) (ed_score education)
       in Inr \<lparr>overall_match = \<lparr>om_score = float_round2 match_score,
                                 om_match_level = float_match_level match_score\<rparr>,
               skills_match = skills,
               experience_match = experience,
               education_match = education\<rparr>))"

text \<open>
  The recall of the specification: the share of a requirement set found among the CV
  skills, as a percentage, and 100 for an empty requirement set, in float arithmetic.
\<close>

definition spec_recall :: "atom set \<Rightarrow> atom set \<Rightarrow> pyfloat" where
  "spec_recall cv_skills requirement =
     (if requirement = {} then Fin 100
      else fmul (to_float (real (card (cv_skills \<inter> requirement)) / real (card requirement)))
                (Fin 100))"

section \<open>models: the two provider handlers and the model manager\<close>

text \<open>
  What lies outside the repository: the two remote services, which answer a request
  with a text or raise, and the functions \<^verbatim>\<open>json.loads\<close> (no value stands for
  JSONDecodeError) and \<^verbatim>\<open>json.dumps(schema, indent=2)\<close> of the standard library.  They
  are the fields of \<open>env\<close>.  Every request sent is appended to the list of calls sent, so that
  what was invoked, and in which order, is part of a run's outcome.
\<close>

datatype provider = OpenAI | Anthropic

record api_request =
  rq_model :: string
  rq_system :: "string option"
  rq_prompt :: string
  rq_temperature :: real
  rq_max_tokens :: int

type_synonym calls = "(provider \<times> api_request) list"

type_synonym schema = "(string \<times> pyval) list"

record env =
  env_api :: "provider \<Rightarrow> api_request \<Rightarrow> exn + string"
  env_loads :: "string \<Rightarrow> pyval option"
  env_dumps :: "schema \<Rightarrow> string"

text \<open>
  Sequencing and \<^verbatim>\<open>try ... except\<close> for computations that record their calls: a raised
  exception skips the rest, a handler receives the exception and the calls so far.
\<close>

definition call_bind ::
  "(exn + 'a) \<times> calls \<Rightarrow> ('a \<Rightarrow> calls \<Rightarrow> (exn + 'b) \<times> calls) \<Rightarrow> (exn + 'b) \<times> calls" where
  "call_bind m f = (case fst m of Inl e \<Rightarrow> (Inl e, snd m) | Inr x \<Rightarrow> f x (snd m))"

definition call_catch ::
  "(exn + 'a) \<times> calls \<Rightarrow> (exn \<Rightarrow> calls \<Rightarrow> (exn + 'a) \<times> calls) \<Rightarrow> (exn + 'a) \<times> calls" where
  "call_catch m h = (case fst m of Inl e \<Rightarrow> h e (snd m) | Inr x \<Rightarrow> m)"

text \<open>\<^verbatim>\<open>x or d\<close> for an optional number: \<^verbatim>\<open>None\<close> and zero are both false.\<close>

definition or_real :: "real option \<Rightarrow> real \<Rightarrow> real" where
  "or_real x d = (case x of Some v \<Rightarrow> (if v \<noteq> 0 then v else d) | None \<Rightarrow> d)"

definition or_int :: "int option \<Rightarrow> int \<Rightarrow> int" where
  "or_int x d = (case x of Some v \<Rightarrow> (if v \<noteq> 0 then v else d) | None \<Rightarrow> d)"

text \<open>\<^verbatim>\<open>if system_message:\<close> for an optional string.\<close>

definition given :: "string option \<Rightarrow> bool" where
  "given s = (case s of Some t \<Rightarrow> t \<noteq> [] | None \<Rightarrow> False)"

definition newline :: string where
  "newline = [CHR 0x0A]"

text \<open>\<^verbatim>\<open>s.strip()\<close>, \<^verbatim>\<open>s.endswith(p)\<close>, \<^verbatim>\<open>s.find(c)\<close> and \<^verbatim>\<open>s.rfind(c)\<close> for a character.\<close>

definition py_strip :: "string \<Rightarrow> string" where
  "py_strip s = rev (dropWhile py_isspace (rev (dropWhile py_isspace s)))"

definition ends_with :: "string \<Rightarrow> string \<Rightarrow> bool" where
  "ends_with s p \<longleftrightarrow> starts_with (rev s) (rev p)"

definition py_find :: "string \<Rightarrow> char \<Rightarrow> int" where
  "py_find s c = (if c \<in> set s then int (length (takeWhile (\<lambda>x. x \<noteq> c) s)) else - 1)"

definition py_rfind :: "string \<Rightarrow> char \<Rightarrow> int" where
  "py_rfind s c =
     (if c \<in> set s then int (length s) - 1 - int (length (takeWhile (\<lambda>x. x \<noteq> c) (rev s)))
      else - 1)"

text \<open>The default of a schema field, and the schema-shaped default object.\<close>

definition default_for :: "pyval \<Rightarrow> pyval" where
  "default_for hint = (case hint of PList xs \<Rightarrow> PList [] | _ \<Rightarrow> PStr [])"

definition schema_defaults :: "schema \<Rightarrow> pyval" where
  "schema_defaults output_schema = PDict (map (\<lambda>(k, v). (k, default_for v)) output_schema)"

text \<open>
  \<^verbatim>\<open>key not in structured_response\<close> and \<^verbatim>\<open>structured_response[key] = v\<close>, on whatever
  value \<^verbatim>\<open>json.loads\<close> returned: membership is defined for a dictionary (its keys), a
  list (its elements) and a string (substring); only a dictionary accepts the assignment.
\<close>

definition py_in :: "string \<Rightarrow> pyval \<Rightarrow> exn + bool" where
  "py_in key v =
     (case v of
        PDict kvs \<Rightarrow> Inr (key \<in> set (map fst kvs))
      | PList xs \<Rightarrow> Inr (PStr key \<in> set xs)
      | PStr s \<Rightarrow> Inr (py_contains s key)
      | _ \<Rightarrow> Inl TypeError)"

definition py_setitem :: "pyval \<Rightarrow> string \<Rightarrow> pyval \<Rightarrow> exn + pyval" where
  "py_setitem d key v =
     (case d of
        PDict kvs \<Rightarrow>
          Inr (PDict (if key \<in> set (map fst kvs)
                      then map (\<lambda>(k, old). if k = key then (k, v) else (k, old)) kvs
                      else kvs @ [(key, v)]))
      | _ \<Rightarrow> Inl TypeError)"

text \<open>The loop "validate against schema" of the OpenAI handler.\<close>

fun inject_defaults :: "schema \<Rightarrow> pyval \<Rightarrow> exn + pyval" where
  "inject_defaults [] structured_response = Inr structured_response"
| "inject_defaults ((key, hint) # rest) structured_response =
     bind_exn (py_in key structured_response) (\<lambda>present.
       if \<not> present
       then bind_exn (py_setitem structured_response key (default_for hint)) (inject_defaults rest)
       else inject_defaults rest structured_response)"

subsection \<open>models/openai\_handler.py\<close>

text \<open>\<^verbatim>\<open>OpenAIHandler.model_configs\<close>: for each model its \<^verbatim>\<open>max_tokens\<close> and \<^verbatim>\<open>temperature\<close>.\<close>

definition openai_model_configs :: "(string \<times> int \<times> real) list" where
  "openai_model_configs =
     [(''gpt-4o-mini'', 4000, 0.7), (''gpt-4'', 4000, 0.7), (''gpt-3.5-turbo'', 2000, 0.7)]"

text \<open>
  The arguments \<^verbatim>\<open>OpenAIHandler.get_completion\<close> passes to the service: the system
  message only if one is given, and \<^verbatim>\<open>temperature or config.get('temperature', 0.7)\<close>,
  \<^verbatim>\<open>max_tokens or config.get('max_tokens', 2000)\<close> with the configuration of the model
  (empty for an unknown model).
\<close>

definition openai_request ::
  "string \<Rightarrow> string \<Rightarrow> string option \<Rightarrow> real option \<Rightarrow> int option \<Rightarrow> api_request" where
  "openai_request model prompt system_message temperature max_tokens =
     (let config = map_of openai_model_configs model
      in \<lparr>rq_model = model,
          rq_system = (if given system_message then system_message else None),
          rq_prompt = prompt,
          rq_temperature =
            or_real temperature (case config of Some c \<Rightarrow> snd c | None \<Rightarrow> 0.7),
          rq_max_tokens =
            or_int max_tokens (case config of Some c \<Rightarrow> fst c | None \<Rightarrow> 2000)\<rparr>)"

text \<open>
  \<^verbatim>\<open>OpenAIHandler.get_completion\<close>: sends the request; whatever the service raises is
  logged and re-raised.
\<close>

definition openai_get_completion ::
  "env \<Rightarrow> string \<Rightarrow> string \<Rightarrow> string option \<Rightarrow> real option \<Rightarrow> int option \<Rightarrow> calls
     \<Rightarrow> (exn + string) \<times> calls" where
  "openai_get_completion e model prompt system_message temperature max_tokens sent =
     (let request = openai_request model prompt system_message temperature max_tokens
      in (env_api e OpenAI request, sent @ [(OpenAI, request)]))"

definition openai_schema_prompt :: "env \<Rightarrow> string \<Rightarrow> schema \<Rightarrow> string" where
  "openai_schema_prompt e prompt output_schema =
     prompt @ newline @ newline
     @ ''Important: Provide your response in valid JSON format following this schema:'' @ newline
     @ env_dumps e output_schema @ newline
     @ ''Ensure the response is a properly formatted JSON object with no trailing commas or comments.''"

definition openai_fallback_prompt :: "env \<Rightarrow> string \<Rightarrow> schema \<Rightarrow> string" where
  "openai_fallback_prompt e prompt output_schema =
     prompt @ newline @ newline
     @ ''CRITICAL: Your response MUST be a valid JSON object. ''
     @ ''Do not include any additional text, markdown, or explanations. ''
     @ ''Use exactly this structure:'' @ newline @ env_dumps e output_schema"

text \<open>Removing a markdown code fence around the response.\<close>

definition clean_response :: "string \<Rightarrow> string" where
  "clean_response response =
     (let c0 = py_strip response;
          c1 = (if starts_with c0 ''```json'' then drop 7 c0 else c0);
          c2 = (if starts_with c1 ''```'' then drop 3 c1 else c1);
          c3 = (if ends_with c2 ''```'' then take (length c2 - 3) c2 else c2)
      in py_strip c3)"

text \<open>The inner \<^verbatim>\<open>try\<close> block: clean, parse, inject the defaults of missing keys.\<close>

definition openai_parse :: "env \<Rightarrow> schema \<Rightarrow> string \<Rightarrow> exn + pyval" where
  "openai_parse e output_schema response =
     (case env_loads e (clean_response response) of
        None \<Rightarrow> Inl JSONDecodeError
      | Some structured_response \<Rightarrow> inject_defaults output_schema structured_response)"

text \<open>
  The handler of \<^verbatim>\<open>json.JSONDecodeError\<close>: one more request with the stricter prompt,
  asked for with temperature 0.0; its parsed answer is returned as it is, and the
  schema-shaped default if it does not parse.
\<close>

definition openai_reprompt ::
  "env \<Rightarrow> string \<Rightarrow> string \<Rightarrow> schema \<Rightarrow> calls \<Rightarrow> (exn + pyval) \<times> calls" where
  "openai_reprompt e model prompt output_schema sent =
     call_bind
       (openai_get_completion e model (openai_fallback_prompt e prompt output_schema)
          (Some ''You must respond with only valid JSON matching the schema.'') (Some 0.0) None sent)
       (\<lambda>response sent.
          case env_loads e (py_strip response) of
            Some v \<Rightarrow> (Inr v, sent)
          | None \<Rightarrow> (Inr (schema_defaults output_schema), sent))"

text \<open>
  \<^verbatim>\<open>OpenAIHandler.get_structured_completion\<close>.  The outer handler answers every other
  exception, a failed request included, with the schema-shaped default.
\<close>

definition openai_get_structured_completion ::
  "env \<Rightarrow> string \<Rightarrow> string \<Rightarrow> schema \<Rightarrow> string option \<Rightarrow> calls \<Rightarrow> (exn + pyval) \<times> calls" where
  "openai_get_structured_completion e model prompt output_schema system_message sent =
     call_catch
       (call_bind
          (openai_get_completion e model (openai_schema_prompt e prompt output_schema)
             (if \<not> given system_message
              then Some ''You are a helpful assistant that always responds with valid JSON matching the requested schema.''
              else system_message)
             (Some 0.1) None sent)
          (\<lambda>response sent.
             call_catch (openai_parse e output_schema response, sent)
               (\<lambda>err sent.
                  if err = JSONDecodeError then openai_reprompt e model prompt output_schema sent
                  else (Inl err, sent))))
       (\<lambda>err sent. (Inr (schema_defaults output_schema), sent))"

subsection \<open>models/anthropic\_handler.py\<close>

definition anthropic_model_configs :: "(string \<times> int \<times> real) list" where
  "anthropic_model_configs =
     [(''claude-3-opus-20240229'', 4096, 0.7), (''claude-3-sonnet-20240229'', 4096, 0.7)]"

text \<open>
  The arguments \<^verbatim>\<open>AnthropicHandler.get_completion\<close> passes to the service.  Here the
  configuration is read with \<^verbatim>\<open>model_configs[self.model]\<close>, evaluated only when the
  argument is \<^verbatim>\<open>None\<close> or zero, and raising KeyError for an unknown model.
\<close>

definition anthropic_request ::
  "string \<Rightarrow> string \<Rightarrow> string option \<Rightarrow> real option \<Rightarrow> int option \<Rightarrow> exn + api_request" where
  "anthropic_request model prompt system_message temperature max_tokens =
     (let config = map_of anthropic_model_configs model
      in bind_exn
           (if or_int max_tokens 0 \<noteq> 0 then Inr (or_int max_tokens 0)
            else (case config of Some c \<Rightarrow> Inr (fst c) | None \<Rightarrow> Inl (KeyError model)))
           (\<lambda>tokens.
         bind_exn
           (if or_real temperature 0 \<noteq> 0 then Inr (or_real temperature 0)
            else (case config of Some c \<Rightarrow> Inr (snd c) | None \<Rightarrow> Inl (KeyError model)))
           (\<lambda>temp.
           Inr \<lparr>rq_model = model,
                rq_system = (if given system_message then system_message else None),
                rq_prompt = prompt,
                rq_temperature = temp,
                rq_max_tokens = tokens\<rparr>)))"

text \<open>
  \<^verbatim>\<open>AnthropicHandler.get_completion\<close>: sends the request; every exception is logged and
  re-raised.
\<close>

definition anthropic_get_completion ::
  "env \<Rightarrow> string \<Rightarrow> string \<Rightarrow> string option \<Rightarrow> real option \<Rightarrow> int option \<Rightarrow> calls
     \<Rightarrow> (exn + string) \<times> calls" where
  "anthropic_get_completion e model prompt system_message temperature max_tokens sent =
     (case anthropic_request model prompt system_message temperature max_tokens of
        Inl err \<Rightarrow> (Inl err, sent)
      | Inr request \<Rightarrow> (env_api e Anthropic request, sent @ [(Anthropic, request)]))"

definition anthropic_schema_prompt :: "env \<Rightarrow> string \<Rightarrow> schema \<Rightarrow> string" where
  "anthropic_schema_prompt e prompt output_schema =
     prompt @ newline @ newline
     @ ''Please provide the response in the following JSON format: ''
     @ env_dumps e output_schema @ newline
     @ ''Ensure the response is valid JSON.''"

text \<open>
  The inner \<^verbatim>\<open>try\<close> block: the text from the first opening brace to the last closing
  brace is parsed and returned as it is; a missing brace pair and a parse failure both
  end in the ValueError "Invalid JSON response from model".
\<close>

definition anthropic_parse :: "env \<Rightarrow> string \<Rightarrow> exn + pyval" where
  "anthropic_parse e response =
     (let start_idx = py_find response (CHR 0x7B);
          end_idx = py_rfind response (CHR 0x7D) + 1
      in if start_idx \<ge> 0 \<and> end_idx > start_idx then
           (case env_loads e (take (nat (end_idx - start_idx)) (drop (nat start_idx) response)) of
              Some v \<Rightarrow> Inr v
            | None \<Rightarrow> Inl (ValueError ''Invalid JSON response from model''))
         else Inl (ValueError ''Invalid JSON response from model''))"

text \<open>\<^verbatim>\<open>AnthropicHandler.get_structured_completion\<close>: every exception is logged and re-raised.\<close>

definition anthropic_get_structured_completion ::
  "env \<Rightarrow> string \<Rightarrow> string \<Rightarrow> schema \<Rightarrow> string option \<Rightarrow> calls \<Rightarrow> (exn + pyval) \<times> calls" where
  "anthropic_get_structured_completion e model prompt output_schema system_message sent =
     call_bind
       (anthropic_get_completion e model (anthropic_schema_prompt e prompt output_schema)
          system_message (Some 0.3) None sent)
       (\<lambda>response sent. (anthropic_parse e response, sent))"

subsection \<open>models/model\_manager.py\<close>

text \<open>\<^verbatim>\<open>ModelManager.model_config\<close>; the manager builds both handlers with their default models.\<close>

definition default_service :: provider where
  "default_service = OpenAI"

definition fallback_order :: "provider list" where
  "fallback_order = [OpenAI, Anthropic]"

definition task_preferences :: "(string \<times> provider) list" where
  "task_preferences =
     [(''cv_analysis'', Anthropic), (''job_matching'', OpenAI), (''ats_optimization'', Anthropic)]"

definition preferred_service :: "string option \<Rightarrow> provider" where
  "preferred_service task_type =
     (case task_type of
        None \<Rightarrow> default_service
      | Some t \<Rightarrow> (case map_of task_preferences t of Some p \<Rightarrow> p | None \<Rightarrow> default_service))"

text \<open>The structured completion of the handler of a service.\<close>

definition handler_structured ::
  "env \<Rightarrow> provider \<Rightarrow> string \<Rightarrow> schema \<Rightarrow> string option \<Rightarrow> calls \<Rightarrow> (exn + pyval) \<times> calls" where
  "handler_structured e service prompt output_schema system_message sent =
     (case service of
        OpenAI \<Rightarrow>
          openai_get_structured_completion e ''gpt-4o-mini'' prompt output_schema system_message sent
      | Anthropic \<Rightarrow>
          anthropic_get_structured_completion e ''claude-3-opus-20240229'' prompt output_schema
            system_message sent)"

text \<open>
  The fallback loop of \<^verbatim>\<open>ModelManager.get_structured_completion\<close>: the services of
  \<^verbatim>\<open>fallback_order\<close> other than the preferred one are tried in turn; the first that
  returns ends the loop, and after the last the terminal exception is raised.
\<close>

fun try_fallbacks ::
  "env \<Rightarrow> provider \<Rightarrow> string \<Rightarrow> schema \<Rightarrow> string option \<Rightarrow> provider list \<Rightarrow> calls
     \<Rightarrow> (exn + pyval) \<times> calls" where
  "try_fallbacks e service prompt output_schema system_message [] sent =
     (Inl (Exception ''All services failed''), sent)"
| "try_fallbacks e service prompt output_schema system_message (fallback_service # rest) sent =
     (if fallback_service \<noteq> service then
        call_catch (handler_structured e fallback_service prompt output_schema system_message sent)
          (\<lambda>fallback_error sent.
             try_fallbacks e service prompt output_schema system_message rest sent)
      else try_fallbacks e service prompt output_schema system_message rest sent)"

text \<open>\<^verbatim>\<open>ModelManager.get_structured_completion\<close>.\<close>

definition get_structured_completion ::
  "env \<Rightarrow> string \<Rightarrow> schema \<Rightarrow> string option \<Rightarrow> string option \<Rightarrow> calls
     \<Rightarrow> (exn + pyval) \<times> calls" where
  "get_structured_completion e prompt output_schema task_type system_message sent =
     (let service = preferred_service task_type
      in call_catch (handler_structured e service prompt output_schema system_message sent)
           (\<lambda>err sent.
              try_fallbacks e service prompt output_schema system_message fallback_order sent))"

section \<open>core/quality\_metrics.py and agents/coordinator.py: the two overall aggregations\<close>

record overall_quality =
  overall_score :: pyfloat
  component_weights :: "(string \<times> real) list"
  meets_threshold :: bool
  component_scores :: "(string \<times> pyfloat) list"

definition overall_minimum_score :: real where
  "overall_minimum_score = 75"

text \<open>The local table \<^verbatim>\<open>weights\<close> of \<^verbatim>\<open>calculate_overall_quality\<close>.\<close>

definition overall_weights :: "(string \<times> real) list" where
  "overall_weights = [(''cv'', 0.4), (''letter'', 0.3), (''ats'', 0.3)]"

text \<open>
  \<^verbatim>\<open>QualityMetrics.calculate_overall_quality\<close>, on its three float arguments.  The
  threshold is compared with the sum before it is rounded.
\<close>

definition calculate_overall_quality :: "pyfloat \<Rightarrow> pyfloat \<Rightarrow> pyfloat \<Rightarrow> overall_quality" where
  "calculate_overall_quality cv_score letter_score ats_score =
     (let overall =
            fadd (fadd (fmul cv_score (Fin (weight_of overall_weights ''cv'')))
                       (fmul letter_score (Fin (weight_of overall_weights ''letter''))))
                 (fmul ats_score (Fin (weight_of overall_weights ''ats'')));
          meets = fge overall (Fin overall_minimum_score)
      in \<lparr>overall_score = float_round2 overall,
          component_weights = overall_weights,
          meets_threshold = meets,
          component_scores = [(''cv_score'', cv_score), (''letter_score'', letter_score),
                              (''ats_score'', ats_score)]\<rparr>)"

text \<open>The table \<^verbatim>\<open>Coordinator.quality_weights\<close>.\<close>

definition quality_weights :: "(string \<times> real) list" where
  "quality_weights = [(''ats_compliance'', 0.4), (''cv_quality'', 0.4), (''letter_quality'', 0.2)]"

record aggregated =
  agg_overall_score :: pyfloat
  agg_component_scores :: "(string \<times> pyval) list"

text \<open>
  \<^verbatim>\<open>Coordinator._aggregate_results\<close>, on the three result mappings of the quality agents.
  A missing \<^verbatim>\<open>overall_score\<close> or one that cannot be multiplied by a float raises, and the
  handler re-raises.
\<close>

definition aggregate_results :: "pyval \<Rightarrow> pyval \<Rightarrow> pyval \<Rightarrow> exn + aggregated" where
  "aggregate_results ats_results cv_results letter_results =
     bind_exn (py_getitem ats_results ''overall_score'') (\<lambda>a.
     bind_exn (float_operand a) (\<lambda>an.
     bind_exn (py_getitem cv_results ''overall_score'') (\<lambda>c.
     bind_exn (float_operand c) (\<lambda>cn.
     bind_exn (py_getitem letter_results ''overall_score'') (\<lambda>l.
     bind_exn (float_operand l) (\<lambda>ln.
       let ats_score = fmul an (Fin (weight_of quality_weights ''ats_compliance''));
           cv_score = fmul cn (Fin (weight_of quality_weights ''cv_quality''));
           letter_score = fmul ln (Fin (weight_of quality_weights ''letter_quality''))
       in Inr \<lparr>agg_overall_score = float_round2 (fadd (fadd ats_score cv_score) letter_score),
               agg_component_scores = [(''ats_compliance'', a), (''cv_quality'', c),
                                       (''letter_quality'', l)]\<rparr>))))))"

section \<open>core/workflow\_manager.py: the workflow checklist\<close>

text \<open>
  \<^verbatim>\<open>WorkflowManager.workflow_states\<close>: a dictionary with five fixed keys, created in
  this order and only ever assigned at these keys.
\<close>

record workflow_states =
  document_processing :: bool
  initial_analysis :: bool
  optimization :: bool
  letter_generation :: bool
  quality_check :: bool

text \<open>\<^verbatim>\<open>workflow_states.items()\<close>, in insertion order.\<close>

definition state_items :: "workflow_states \<Rightarrow> (string \<times> bool) list" where
  "state_items ws =
     [(''document_processing'', document_processing ws),
      (''initial_analysis'', initial_analysis ws),
      (''optimization'', optimization ws),
      (''letter_generation'', letter_generation ws),
      (''quality_check'', quality_check ws)]"

text \<open>\<^verbatim>\<open>WorkflowManager._reset_workflow_states\<close>.\<close>

definition reset_workflow_states :: "workflow_states \<Rightarrow> workflow_states" where
  "reset_workflow_states ws =
     ws\<lparr>document_processing := False, initial_analysis := False, optimization := False,
        letter_generation := False, quality_check := False\<rparr>"

record workflow_status =
  completed_steps :: nat
  total_steps :: nat
  completion_percentage :: real
  step_status :: "(string \<times> bool \<times> nat) list"

text \<open>\<^verbatim>\<open>WorkflowManager.get_workflow_status\<close>; each step is listed with its flag and its 1-based order.\<close>

definition get_workflow_status :: "workflow_states \<Rightarrow> workflow_status" where
  "get_workflow_status ws =
     (let completed = length (filter (\<lambda>state. state) (map snd (state_items ws)));
          total = length (state_items ws)
      in \<lparr>completed_steps = completed,
          total_steps = total,
          completion_percentage = round2 ((real completed / real total) * 100),
          step_status = map (\<lambda>(idx, (step, status)). (step, status, idx + 1))
                            (enumerate 0 (state_items ws))\<rparr>)"

text \<open>
  The components the workflow manager calls.  They sit outside the checklist logic
  (document ingestion, the agents, the quality coordinator), so each is a function that
  returns a value or raises.
\<close>

record collaborators =
  c_process_document :: "string \<Rightarrow> exn + pyval"
  c_analyze_cv :: "pyval \<Rightarrow> exn + pyval"
  c_analyze_job :: "string \<Rightarrow> exn + pyval"
  c_match_cv_to_job :: "pyval \<Rightarrow> string \<Rightarrow> exn + pyval"
  c_optimize_cv :: "pyval \<Rightarrow> string \<Rightarrow> exn + pyval"
  c_generate_cover_letter :: "pyval \<Rightarrow> string \<Rightarrow> string \<Rightarrow> exn + pyval"
  c_assess_application_quality ::
    "pyval \<Rightarrow> pyval \<Rightarrow> string \<Rightarrow> string \<Rightarrow> string option \<Rightarrow> exn + pyval"

record final_results =
  original_cv_content :: pyval
  original_cv_analysis :: pyval
  job_analysis :: pyval
  initial_match :: pyval
  optimized_cv :: pyval
  optimization_details :: pyval
  cover_letter :: pyval
  quality_assessment :: pyval
  workflow_status :: workflow_status

text \<open>
  A step of the workflow is the outcome of a call together with the checklist at that
  moment.  \<open>wf_bind\<close> continues with the value of a step that returned and stops, keeping
  the checklist, at a step that raised.
\<close>

definition wf_bind ::
  "(exn + 'a) \<times> workflow_states \<Rightarrow> ('a \<Rightarrow> workflow_states \<Rightarrow> (exn + 'b) \<times> workflow_states)
     \<Rightarrow> (exn + 'b) \<times> workflow_states" where
  "wf_bind m f = (case fst m of Inl e \<Rightarrow> (Inl e, snd m) | Inr x \<Rightarrow> f x (snd m))"

text \<open>
  The letter stage of \<^verbatim>\<open>process_application\<close>: \<^verbatim>\<open>letter_text\<close> stays \<^verbatim>\<open>None\<close> and the
  flag untouched unless a letter is requested.
\<close>

definition letter_stage ::
  "collaborators \<Rightarrow> bool \<Rightarrow> pyval \<Rightarrow> string \<Rightarrow> string \<Rightarrow> workflow_states
     \<Rightarrow> (exn + pyval) \<times> workflow_states" where
  "letter_stage c generate_letter optimized job_description company_name ws =
     (if generate_letter then
        wf_bind (c_generate_cover_letter c optimized job_description company_name, ws)
          (\<lambda>letter_result ws.
        wf_bind (py_getitem letter_result ''letter'', ws)
          (\<lambda>letter_text ws.
        (Inr letter_text, ws\<lparr>letter_generation := True\<rparr>)))
      else (Inr PNone, ws))"

text \<open>
  \<^verbatim>\<open>WorkflowManager.process_application\<close>, passing the checklist through: the result is
  the returned mapping or the exception that left the method, together with the
  checklist as the call leaves it.  Each flag is set right after the calls of its stage
  have returned.
\<close>

definition process_application ::
  "collaborators \<Rightarrow> string \<Rightarrow> string \<Rightarrow> string \<Rightarrow> string option \<Rightarrow> bool \<Rightarrow> workflow_states
     \<Rightarrow> (exn + final_results) \<times> workflow_states" where
  "process_application c cv_file_path job_description company_name industry generate_letter ws0 =
     wf_bind (c_process_document c cv_file_path, reset_workflow_states ws0)
       (\<lambda>cv_result ws.
     wf_bind (py_getitem cv_result ''success'', ws)
       (\<lambda>success ws.
     if \<not> py_truthy success then
       wf_bind (py_getitem cv_result ''error'', ws)
         (\<lambda>err ws. (Inl (CVProcessingError err), ws))
     else
     wf_bind (py_getitem cv_result ''content'', ws)
       (\<lambda>cv_text ws.
     wf_bind (c_analyze_cv c cv_text, ws\<lparr>document_processing := True\<rparr>)
       (\<lambda>cv_analysis ws.
     wf_bind (c_analyze_job c job_description, ws)
       (\<lambda>job_an ws.
     wf_bind (c_match_cv_to_job c cv_text job_description, ws)
       (\<lambda>match ws.
     wf_bind (c_optimize_cv c cv_text job_description, ws\<lparr>initial_analysis := True\<rparr>)
       (\<lambda>optimization_result ws.
     wf_bind (py_getitem optimization_result ''optimized_cv'', ws)
       (\<lambda>optimized ws.
     wf_bind (letter_stage c generate_letter optimized job_description company_name
                (ws\<lparr>optimization := True\<rparr>))
       (\<lambda>letter_text ws.
     wf_bind (c_assess_application_quality c optimized
                (if py_truthy letter_text then letter_text else PStr [])
                job_description company_name industry, ws)
       (\<lambda>quality_report ws.
     (Inr \<lparr>original_cv_content = cv_text,
           original_cv_analysis = cv_analysis,
           job_analysis = job_an,
           initial_match = match,
           optimized_cv = optimized,
           optimization_details = optimization_result,
           cover_letter = (if py_truthy letter_text then letter_text else PNone),
           quality_assessment = quality_report,
           workflow_status = get_workflow_status (ws\<lparr>quality_check := True\<rparr>)\<rparr>,
      ws\<lparr>quality_check := True\<rparr>)))))))))))"

text \<open>
  The completed flags form a prefix of the declared stage order when no flag is set
  after an unset one.
\<close>

fun completed_prefix :: "bool list \<Rightarrow> bool" where
  "completed_prefix [] = True"
| "completed_prefix (b # bs) = (if b then completed_prefix bs else True \<notin> set bs)"

section \<open>Theorems\<close>

lemma py_lower_pdf: "py_lower ''.pdf'' = ''.pdf''"
  by (simp add: py_lower_def py_lower_char_def)

lemma py_lower_jpg: "py_lower ''.jpg'' = ''.jpg''"
  by (simp add: py_lower_def py_lower_char_def)

lemma py_lower_PDF: "py_lower ''.PDF'' = ''.pdf''"
  by (simp add: py_lower_def py_lower_char_def)

text \<open>
  Claim C9.  For every extension and size, \<^verbatim>\<open>validate_format\<close> is invalid exactly when
  the lower-cased extension is outside \<^verbatim>\<open>{.pdf, .docx}\<close> or the size exceeds 10.  Both
  checks always run: the issues list is the format message (if the extension is not
  allowed) followed by the size message (if the size exceeds 10), so both appear when
  both conditions hold.  The result depends on the two arguments only.  In particular
  \<^verbatim>\<open>('.pdf', 5)\<close> is valid, \<^verbatim>\<open>('.jpg', 5)\<close> is invalid with at least one issue and
  \<^verbatim>\<open>('.pdf', 15)\<close> is invalid.
\<close>

theorem validate_format_spec:
  "(\<not> valid (validate_format ext size_mb)
      \<longleftrightarrow> py_lower ext \<notin> {''.pdf'', ''.docx''} \<or> size_mb > 10)
   \<and> (py_lower ext \<notin> {''.pdf'', ''.docx''} \<and> size_mb > 10
        \<longrightarrow> issues (validate_format ext size_mb)
            = [''Unsupported format. Use .pdf, .docx'', ''File too large. Maximum size is 10MB''])
   \<and> (valid (validate_format ext size_mb) \<longleftrightarrow> issues (validate_format ext size_mb) = [])
   \<and> valid (validate_format ''.pdf'' 5)
   \<and> \<not> valid (validate_format ''.jpg'' 5)
   \<and> 1 \<le> length (issues (validate_format ''.jpg'' 5))
   \<and> \<not> valid (validate_format ''.pdf'' 15)"
  by (simp add: validate_format_def allowed_formats_def max_file_size_mb_def Let_def
      py_lower_pdf py_lower_jpg)

theorem validate_format_spec_witness:
  "\<not> valid (validate_format ''.PDF'' 11) \<and> \<not> valid (validate_format ''.jpg'' 11)
   \<and> issues (validate_format ''.jpg'' 11)
       = [''Unsupported format. Use .pdf, .docx'', ''File too large. Maximum size is 10MB'']"
  using validate_format_spec [of "''.PDF''" 11] validate_format_spec [of "''.jpg''" 11]
  by (simp add: py_lower_PDF py_lower_jpg)

text \<open>
  Claim C7.  The match level is a step function of the score whose bands include their
  lower bound: at least 90 is "Excellent Match", from 75 up to 90 "Strong Match", from 60
  up to 75 "Good Match", from 40 up to 60 "Partial Match", below 40 "Low Match", for
  every real score.
\<close>

theorem get_match_level_bands:
  "(90 \<le> s \<longrightarrow> get_match_level s = ''Excellent Match'')
   \<and> (75 \<le> s \<and> s < 90 \<longrightarrow> get_match_level s = ''Strong Match'')
   \<and> (60 \<le> s \<and> s < 75 \<longrightarrow> get_match_level s = ''Good Match'')
   \<and> (40 \<le> s \<and> s < 60 \<longrightarrow> get_match_level s = ''Partial Match'')
   \<and> (s < 40 \<longrightarrow> get_match_level s = ''Low Match'')"
  by (simp add: get_match_level_def)

theorem get_match_level_bands_witness:
  "get_match_level 90 = ''Excellent Match''
   \<and> get_match_level 89.999 = ''Strong Match''
   \<and> get_match_level 75 = ''Strong Match''
   \<and> get_match_level 74.999 = ''Good Match''
   \<and> get_match_level 60 = ''Good Match''
   \<and> get_match_level 40 = ''Partial Match''
   \<and> get_match_level 39.999 = ''Low Match''"
  using get_match_level_bands [of 90] get_match_level_bands [of "89.999"]
    get_match_level_bands [of 75] get_match_level_bands [of "74.999"]
    get_match_level_bands [of 60] get_match_level_bands [of 40]
    get_match_level_bands [of "39.999"]
  by simp

lemma py_round_int_near: "\<bar>y - of_int n\<bar> < 1 / 2 \<Longrightarrow> py_round_int y = n"
proof -
  assume a: "\<bar>y - of_int n\<bar> < 1 / 2"
  have "\<lfloor>y\<rfloor> = n \<or> \<lfloor>y\<rfloor> = n - 1" using a by linarith
  then show ?thesis
  proof
    assume f: "\<lfloor>y\<rfloor> = n"
    then have "y - of_int \<lfloor>y\<rfloor> < 1 / 2" using a by linarith
    then show ?thesis using f by (simp add: py_round_int_def Let_def)
  next
    assume f: "\<lfloor>y\<rfloor> = n - 1"
    then have "1 / 2 < y - of_int \<lfloor>y\<rfloor>" using a by linarith
    then show ?thesis using f by (simp add: py_round_int_def Let_def)
  qed
qed

lemma round2_near: "\<bar>x * 100 - of_int n\<bar> < 1 / 2 \<Longrightarrow> round2 x = of_int n / 100"
  by (simp add: round2_def py_round_int_near)

lemma round2_exact: "round2 (of_int n / 100) = of_int n / 100"
  using round2_near [of "of_int n / 100" n] by simp

lemma wf_bind_returns:
  "wf_bind m f = (Inr r, s') \<longleftrightarrow> (\<exists>x. fst m = Inr x \<and> f x (snd m) = (Inr r, s'))"
  by (cases "fst m") (auto simp: wf_bind_def)

lemma letter_stage_off: "letter_stage c False opt j n ws = (Inr PNone, ws)"
  by (simp add: letter_stage_def)

lemma process_application_flags:
  assumes "process_application c p j n ind False ws = (Inr r, ws')"
  shows "ws' = \<lparr>document_processing = True, initial_analysis = True, optimization = True,
               letter_generation = False, quality_check = True\<rparr>
         \<and> workflow_status r = get_workflow_status ws'"
proof -
  obtain a b c' d e where ws: "ws = \<lparr>document_processing = a, initial_analysis = b, optimization = c',
               letter_generation = d, quality_check = e\<rparr>" by (cases ws) auto
  show ?thesis
    using assms unfolding process_application_def reset_workflow_states_def letter_stage_off ws
    by (auto simp: wf_bind_returns split: if_splits)
qed

lemma round2_80: "round2 80 = 80"
  using round2_exact [of 8000] by simp

lemma status_four_of_five:
  "get_workflow_status \<lparr>document_processing = True, initial_analysis = True, optimization = True,
               letter_generation = False, quality_check = True\<rparr>
   = \<lparr>completed_steps = 4, total_steps = 5, completion_percentage = 80,
      step_status = [(''document_processing'', True, 1), (''initial_analysis'', True, 2),
         (''optimization'', True, 3), (''letter_generation'', False, 4), (''quality_check'', True, 5)]\<rparr>"
  by (simp add: get_workflow_status_def state_items_def Let_def round2_80 enumerate_eq_zip upt_rec)

text \<open>
  Claim C10.  Every run of \<^verbatim>\<open>process_application\<close> with \<^verbatim>\<open>generate_letter=False\<close> that
  returns leaves \<^verbatim>\<open>letter_generation\<close> false and \<^verbatim>\<open>quality_check\<close> true, so the completed
  flags are not a prefix of the declared stage order, and the status it reports (the one
  \<^verbatim>\<open>get_workflow_status\<close> gives afterwards) counts 4 completed steps of 5, that is 80.0
  percent.
\<close>

theorem process_application_without_letter:
  assumes "process_application c cv_file_path job_description company_name industry False ws
             = (Inr r, ws')"
  shows "\<not> letter_generation ws' \<and> quality_check ws'
         \<and> \<not> completed_prefix (map snd (state_items ws'))
         \<and> workflow_status r = get_workflow_status ws'
         \<and> completed_steps (get_workflow_status ws') = 4
         \<and> total_steps (get_workflow_status ws') = 5
         \<and> completion_percentage (get_workflow_status ws') = 80"
  using process_application_flags [OF assms]
  by (simp add: status_four_of_five state_items_def)

theorem process_application_without_letter_witness:
  "snd (process_application
     \<lparr>c_process_document = (\<lambda>p. Inr (PDict [(''success'', PBool True), (''content'', PStr ''cv text''),
                                             (''error'', PNone)])),
      c_analyze_cv = (\<lambda>t. Inr (PDict [])),
      c_analyze_job = (\<lambda>j. Inr (PDict [])),
      c_match_cv_to_job = (\<lambda>t j. Inr (PDict [])),
      c_optimize_cv = (\<lambda>t j. Inr (PDict [(''optimized_cv'', PStr ''better cv'')])),
      c_generate_cover_letter = (\<lambda>t j n. Inr (PDict [(''letter'', PStr ''Dear'')])),
      c_assess_application_quality = (\<lambda>t l j n i. Inr (PDict []))\<rparr>
     ''cv.pdf'' ''job'' ''Acme'' None False
     \<lparr>document_processing = False, initial_analysis = False, optimization = False,
      letter_generation = False, quality_check = False\<rparr>)
   = \<lparr>document_processing = True, initial_analysis = True, optimization = True,
      letter_generation = False, quality_check = True\<rparr>
   \<and> completion_percentage (get_workflow_status
        \<lparr>document_processing = True, initial_analysis = True, optimization = True,
         letter_generation = False, quality_check = True\<rparr>) = 80"
proof -
  let ?c = "\<lparr>c_process_document = (\<lambda>p. Inr (PDict [(''success'', PBool True), (''content'', PStr ''cv text''),
                                             (''error'', PNone)])),
      c_analyze_cv = (\<lambda>t. Inr (PDict [])),
      c_analyze_job = (\<lambda>j. Inr (PDict [])),
      c_match_cv_to_job = (\<lambda>t j. Inr (PDict [])),
      c_optimize_cv = (\<lambda>t j. Inr (PDict [(''optimized_cv'', PStr ''better cv'')])),
      c_generate_cover_letter = (\<lambda>t j n. Inr (PDict [(''letter'', PStr ''Dear'')])),
      c_assess_application_quality = (\<lambda>t l j n i. Inr (PDict []))\<rparr>"
  let ?ws = "\<lparr>document_processing = False, initial_analysis = False, optimization = False,
      letter_generation = False, quality_check = False\<rparr>"
  let ?ws' = "\<lparr>document_processing = True, initial_analysis = True, optimization = True,
      letter_generation = False, quality_check = True\<rparr>"
  let ?r = "\<lparr>original_cv_content = PStr ''cv text'',
           original_cv_analysis = PDict [],
           job_analysis = PDict [],
           initial_match = PDict [],
           optimized_cv = PStr ''better cv'',
           optimization_details = PDict [(''optimized_cv'', PStr ''better cv'')],
           cover_letter = PNone,
           quality_assessment = PDict [],
           workflow_status = get_workflow_status ?ws'\<rparr>"
  have run: "process_application ?c ''cv.pdf'' ''job'' ''Acme'' None False ?ws = (Inr ?r, ?ws')"
    by (simp add: process_application_def wf_bind_def reset_workflow_states_def letter_stage_off
        py_getitem_def py_truthy_def)
  show ?thesis
    using process_application_without_letter [OF run] by (simp add: run)
qed

lemma required_without_section_type:
  "check_required ns acc ''contact_information'' = acc"
  "check_required ns acc ''professional_experience'' = acc"
  by (simp_all add: check_required_def section_titles_def py_replace_def starts_with_def)

lemma check_required_grows:
  "set (check_required ns acc required) \<subseteq> insert (''Missing required section: '' @ required) (set acc)"
  by (auto simp: check_required_def Let_def split: option.splits)

text \<open>
  Claim C1.  The claim says that all four required categories are checked and that the
  empty title list is reported as missing all four.  The code looks each required name
  up by testing whether the name without underscores occurs inside a key of the synonym
  table; "contactinformation" and "professionalexperience" occur in no key, so these two
  categories are never checked.  The empty list yields two issues (education, skills),
  a list holding only "Education" and "Skills" is valid, and for every title list no
  issue other than those two can appear.
\<close>

theorem validate_structure_skips_two_categories:
  "validate_structure [] =
     \<lparr>valid = False,
      issues = [''Missing required section: education'', ''Missing required section: skills'']\<rparr>
   \<and> validate_structure [''Education'', ''Skills''] = \<lparr>valid = True, issues = []\<rparr>
   \<and> set (issues (validate_structure sections))
       \<subseteq> {''Missing required section: education'', ''Missing required section: skills''}"
proof -
  have a: "validate_structure [] =
     \<lparr>valid = False,
      issues = [''Missing required section: education'', ''Missing required section: skills'']\<rparr>"
    by code_simp
  have b: "validate_structure [''Education'', ''Skills''] = \<lparr>valid = True, issues = []\<rparr>"
    by code_simp
  let ?ns = "map normalize_section_title sections"
  have "set (check_required ?ns (check_required ?ns [] ''education'') ''skills'')
        \<subseteq> {''Missing required section: education'', ''Missing required section: skills''}"
    using check_required_grows [of ?ns "check_required ?ns [] ''education''" "''skills''"]
      check_required_grows [of ?ns "[]" "''education''"]
    by auto
  then have c: "set (issues (validate_structure sections))
       \<subseteq> {''Missing required section: education'', ''Missing required section: skills''}"
    by (simp add: validate_structure_def Let_def required_sections_def required_without_section_type)
  show ?thesis using a b c by simp
qed

lemma openai_get_completion_eq:
  "openai_get_completion e m p s t mt sent
   = (env_api e OpenAI (openai_request m p s t mt), sent @ [(OpenAI, openai_request m p s t mt)])"
  by (simp add: openai_get_completion_def Let_def)

lemma call_catch_default:
  "\<exists>v. fst (call_catch m (\<lambda>err s. (Inr d, s))) = Inr v"
  by (cases "fst m") (auto simp: call_catch_def)

lemma call_catch_returned: "fst m = Inr v \<Longrightarrow> call_catch m h = m"
  by (simp add: call_catch_def)

lemma openai_never_raises:
  "\<exists>v. fst (openai_get_structured_completion e m p sc sm sent) = Inr v"
  unfolding openai_get_structured_completion_def by (rule call_catch_default)

lemma openai_reprompt_eq:
  "openai_reprompt e m p sc sent =
     (case env_api e OpenAI (openai_request m (openai_fallback_prompt e p sc)
              (Some ''You must respond with only valid JSON matching the schema.'') (Some 0) None) of
        Inl err \<Rightarrow> Inl err
      | Inr text \<Rightarrow> Inr (case env_loads e (py_strip text) of Some v \<Rightarrow> v
                          | None \<Rightarrow> schema_defaults sc),
      sent @ [(OpenAI, openai_request m (openai_fallback_prompt e p sc)
              (Some ''You must respond with only valid JSON matching the schema.'') (Some 0) None)])"
  by (auto simp: openai_reprompt_def openai_get_completion_eq call_bind_def
      split: sum.splits option.splits)

lemma openai_calls:
  "\<exists>new. snd (openai_get_structured_completion e m p sc sm sent) = sent @ new
         \<and> set (map fst new) \<subseteq> {OpenAI} \<and> 1 \<le> length new \<and> length new \<le> 2"
  by (auto simp: openai_get_structured_completion_def openai_get_completion_eq openai_reprompt_eq
      call_bind_def call_catch_def split: sum.splits)

lemma preferred_openai:
  "preferred_service t = OpenAI \<Longrightarrow>
   get_structured_completion e p sc t sm sent
   = openai_get_structured_completion e ''gpt-4o-mini'' p sc sm sent"
  using openai_never_raises [of e "''gpt-4o-mini''" p sc sm sent]
  by (auto simp: get_structured_completion_def handler_structured_def Let_def call_catch_returned)

lemma manager_never_raises:
  "\<exists>v. fst (get_structured_completion e p sc t sm sent) = Inr v"
proof (cases "preferred_service t")
  case OpenAI
  then show ?thesis using openai_never_raises by (simp add: preferred_openai)
next
  case Anthropic
  show ?thesis
  proof (cases "fst (anthropic_get_structured_completion e ''claude-3-opus-20240229'' p sc sm sent)")
    case (Inr v)
    then show ?thesis using Anthropic
      by (simp add: get_structured_completion_def handler_structured_def Let_def call_catch_def)
  next
    case (Inl err)
    obtain v where
      "fst (openai_get_structured_completion e ''gpt-4o-mini'' p sc sm
              (snd (anthropic_get_structured_completion e ''claude-3-opus-20240229'' p sc sm sent)))
       = Inr v"
      using openai_never_raises by blast
    then show ?thesis using Anthropic Inl
      by (simp add: get_structured_completion_def handler_structured_def Let_def call_catch_def
          fallback_order_def)
  qed
qed

lemmas gateway_eval =
  get_structured_completion_def preferred_service_def default_service_def task_preferences_def
  fallback_order_def handler_structured_def anthropic_get_structured_completion_def
  anthropic_get_completion_def anthropic_request_def anthropic_model_configs_def
  openai_get_structured_completion_def openai_get_completion_def openai_request_def
  openai_model_configs_def openai_reprompt_def openai_parse_def call_bind_def call_catch_def
  bind_exn_def or_int_def or_real_def given_def anthropic_parse_def py_find_def py_rfind_def
  clean_response_def py_strip_def py_isspace_def starts_with_def ends_with_def
  schema_defaults_def default_for_def py_in_def py_setitem_def Let_def

text \<open>
  Claim C2.  The claim says that a transport failure of the preferred provider makes the
  manager try the other provider, and never yields a default-valued result without that.
  With the default routing (OpenAI preferred), an OpenAI service that raises on every
  request and a healthy Anthropic service, the manager returns the schema-shaped default
  after a single OpenAI request: the OpenAI handler answers the exception itself, so the
  manager's fallback loop is not entered.  For every environment, no run with the default
  routing reaches Anthropic, and no run at all ends in the terminal exception.
\<close>

theorem openai_transport_failure_skips_fallback:
  \<open>fst (get_structured_completion
            \<lparr>env_api = (\<lambda>p r. case p of OpenAI \<Rightarrow> Inl (APIError ''connection error'')
                                       | Anthropic \<Rightarrow> Inr ''{"a": "x"}''),
             env_loads = (\<lambda>s. if s = ''{"a": "x"}''
                               then Some (PDict [(''a'', PStr ''x'')]) else None),
             env_dumps = (\<lambda>s. ''schema'')\<rparr>
            ''p'' [(''a'', PStr ''string''), (''b'', PList [PStr ''list''])] None None [])
     = Inr (PDict [(''a'', PStr []), (''b'', PList [])])
   \<and> map fst (snd (get_structured_completion
            \<lparr>env_api = (\<lambda>p r. case p of OpenAI \<Rightarrow> Inl (APIError ''connection error'')
                                       | Anthropic \<Rightarrow> Inr ''{"a": "x"}''),
             env_loads = (\<lambda>s. if s = ''{"a": "x"}''
                               then Some (PDict [(''a'', PStr ''x'')]) else None),
             env_dumps = (\<lambda>s. ''schema'')\<rparr>
            ''p'' [(''a'', PStr ''string''), (''b'', PList [PStr ''list''])] None None []))
     = [OpenAI]
   \<and> (\<exists>new. snd (get_structured_completion e prompt sc None sm sent) = sent @ new
            \<and> set (map fst new) \<subseteq> {OpenAI})
   \<and> (\<exists>v. fst (get_structured_completion e prompt sc task sm sent) = Inr v)\<close>
proof -
  have a: \<open>fst (get_structured_completion
            \<lparr>env_api = (\<lambda>p r. case p of OpenAI \<Rightarrow> Inl (APIError ''connection error'')
                                       | Anthropic \<Rightarrow> Inr ''{"a": "x"}''),
             env_loads = (\<lambda>s. if s = ''{"a": "x"}''
                               then Some (PDict [(''a'', PStr ''x'')]) else None),
             env_dumps = (\<lambda>s. ''schema'')\<rparr>
            ''p'' [(''a'', PStr ''string''), (''b'', PList [PStr ''list''])] None None [])
     = Inr (PDict [(''a'', PStr []), (''b'', PList [])])\<close>
    by (simp add: gateway_eval)
  have b: \<open>map fst (snd (get_structured_completion
            \<lparr>env_api = (\<lambda>p r. case p of OpenAI \<Rightarrow> Inl (APIError ''connection error'')
                                       | Anthropic \<Rightarrow> Inr ''{"a": "x"}''),
             env_loads = (\<lambda>s. if s = ''{"a": "x"}''
                               then Some (PDict [(''a'', PStr ''x'')]) else None),
             env_dumps = (\<lambda>s. ''schema'')\<rparr>
            ''p'' [(''a'', PStr ''string''), (''b'', PList [PStr ''list''])] None None []))
     = [OpenAI]\<close>
    by (simp add: gateway_eval)
  have p: "preferred_service None = OpenAI"
    by (simp add: preferred_service_def default_service_def)
  have c: "\<exists>new. snd (get_structured_completion e prompt sc None sm sent) = sent @ new
            \<and> set (map fst new) \<subseteq> {OpenAI}"
    using openai_calls [of e "''gpt-4o-mini''" prompt sc sm sent]
    by (auto simp: preferred_openai [OF p])
  show ?thesis using a b c manager_never_raises by blast
qed

text \<open>
  The loop that validates against the schema, on a parsed dictionary: it cannot raise,
  every schema key is a key of the outcome, and the entries that were there are kept.
\<close>

lemma inject_defaults_dict:
  "\<exists>kvs'. inject_defaults sc (PDict kvs) = Inr (PDict kvs')
         \<and> set (map fst sc) \<union> set (map fst kvs) \<subseteq> set (map fst kvs')
         \<and> (\<forall>k v. map_of kvs k = Some v \<longrightarrow> map_of kvs' k = Some v)"
proof (induction sc arbitrary: kvs)
  case Nil
  then show ?case by simp
next
  case (Cons a sc)
  obtain key hint where a: "a = (key, hint)" by (cases a)
  show ?case
  proof (cases "key \<in> set (map fst kvs)")
    case True
    from Cons [of kvs] obtain kvs' where
      k: "inject_defaults sc (PDict kvs) = Inr (PDict kvs')"
      "set (map fst sc) \<union> set (map fst kvs) \<subseteq> set (map fst kvs')"
      "\<forall>k v. map_of kvs k = Some v \<longrightarrow> map_of kvs' k = Some v"
      by blast
    have "key \<in> set (map fst kvs')" using True k(2) by blast
    then show ?thesis using True a k
      by (simp add: py_in_def bind_exn_def)
  next
    case False
    then have n: "map_of kvs key = None" by (simp add: map_of_eq_None_iff)
    from Cons [of "kvs @ [(key, default_for hint)]"] obtain kvs' where
      k: "inject_defaults sc (PDict (kvs @ [(key, default_for hint)])) = Inr (PDict kvs')"
      "set (map fst sc) \<union> set (map fst (kvs @ [(key, default_for hint)])) \<subseteq> set (map fst kvs')"
      "\<forall>k v. map_of (kvs @ [(key, default_for hint)]) k = Some v \<longrightarrow> map_of kvs' k = Some v"
      by blast
    have "\<forall>k v. map_of kvs k = Some v \<longrightarrow> map_of kvs' k = Some v"
      using k(3) by (auto simp: map_add_def split: option.splits)
    then show ?thesis using False a k(1,2)
      by (auto simp: py_in_def py_setitem_def bind_exn_def)
  qed
qed

text \<open>
  Claim C4.  The claim says that every structured completion whose response parses gets
  the defaults of the missing schema keys.  With the schema {"a": "string", "b": ["list"]}
  and a backend answering {"a": "x"}, the OpenAI handler returns {"a": "x", "b": []}, but
  the Anthropic handler (and the manager routed to it) returns {"a": "x"} without "b", and
  so does the OpenAI handler when that answer comes from its re-prompt.
\<close>

theorem defaults_missing_outside_first_openai_parse:
  \<open>fst (openai_get_structured_completion
            \<lparr>env_api = (\<lambda>p r. Inr ''{"a": "x"}''),
             env_loads = (\<lambda>s. if s = ''{"a": "x"}''
                               then Some (PDict [(''a'', PStr ''x'')]) else None),
             env_dumps = (\<lambda>s. ''schema'')\<rparr>
            ''gpt-4o-mini'' ''p'' [(''a'', PStr ''string''), (''b'', PList [PStr ''list''])] None [])
     = Inr (PDict [(''a'', PStr ''x''), (''b'', PList [])])
   \<and> fst (anthropic_get_structured_completion
            \<lparr>env_api = (\<lambda>p r. Inr ''{"a": "x"}''),
             env_loads = (\<lambda>s. if s = ''{"a": "x"}''
                               then Some (PDict [(''a'', PStr ''x'')]) else None),
             env_dumps = (\<lambda>s. ''schema'')\<rparr>
            ''claude-3-opus-20240229'' ''p'' [(''a'', PStr ''string''), (''b'', PList [PStr ''list''])] None [])
     = Inr (PDict [(''a'', PStr ''x'')])
   \<and> fst (get_structured_completion
            \<lparr>env_api = (\<lambda>p r. Inr ''{"a": "x"}''),
             env_loads = (\<lambda>s. if s = ''{"a": "x"}''
                               then Some (PDict [(''a'', PStr ''x'')]) else None),
             env_dumps = (\<lambda>s. ''schema'')\<rparr>
            ''p'' [(''a'', PStr ''string''), (''b'', PList [PStr ''list''])] (Some ''cv_analysis'') None [])
     = Inr (PDict [(''a'', PStr ''x'')])
   \<and> fst (openai_get_structured_completion
            \<lparr>env_api = (\<lambda>p r. if rq_system r = Some ''You must respond with only valid JSON matching the schema.''
                               then Inr ''{"a": "x"}'' else Inr ''not json''),
             env_loads = (\<lambda>s. if s = ''{"a": "x"}''
                               then Some (PDict [(''a'', PStr ''x'')]) else None),
             env_dumps = (\<lambda>s. ''schema'')\<rparr>
            ''gpt-4o-mini'' ''p'' [(''a'', PStr ''string''), (''b'', PList [PStr ''list''])] None [])
     = Inr (PDict [(''a'', PStr ''x'')])\<close>
proof -
  have a: \<open>fst (openai_get_structured_completion
            \<lparr>env_api = (\<lambda>p r. Inr ''{"a": "x"}''),
             env_loads = (\<lambda>s. if s = ''{"a": "x"}''
                               then Some (PDict [(''a'', PStr ''x'')]) else None),
             env_dumps = (\<lambda>s. ''schema'')\<rparr>
            ''gpt-4o-mini'' ''p'' [(''a'', PStr ''string''), (''b'', PList [PStr ''list''])] None [])
     = Inr (PDict [(''a'', PStr ''x''), (''b'', PList [])])\<close>
    by (simp add: gateway_eval)
  have b: \<open>fst (anthropic_get_structured_completion
            \<lparr>env_api = (\<lambda>p r. Inr ''{"a": "x"}''),
             env_loads = (\<lambda>s. if s = ''{"a": "x"}''
                               then Some (PDict [(''a'', PStr ''x'')]) else None),
             env_dumps = (\<lambda>s. ''schema'')\<rparr>
            ''claude-3-opus-20240229'' ''p'' [(''a'', PStr ''string''), (''b'', PList [PStr ''list''])] None [])
     = Inr (PDict [(''a'', PStr ''x'')])\<close>
    by (simp add: gateway_eval)
  have c: \<open>fst (get_structured_completion
            \<lparr>env_api = (\<lambda>p r. Inr ''{"a": "x"}''),
             env_loads = (\<lambda>s. if s = ''{"a": "x"}''
                               then Some (PDict [(''a'', PStr ''x'')]) else None),
             env_dumps = (\<lambda>s. ''schema'')\<rparr>
            ''p'' [(''a'', PStr ''string''), (''b'', PList [PStr ''list''])] (Some ''cv_analysis'') None [])
     = Inr (PDict [(''a'', PStr ''x'')])\<close>
    by (simp add: gateway_eval)
  have d: \<open>fst (openai_get_structured_completion
            \<lparr>env_api = (\<lambda>p r. if rq_system r = Some ''You must respond with only valid JSON matching the schema.''
                               then Inr ''{"a": "x"}'' else Inr ''not json''),
             env_loads = (\<lambda>s. if s = ''{"a": "x"}''
                               then Some (PDict [(''a'', PStr ''x'')]) else None),
             env_dumps = (\<lambda>s. ''schema'')\<rparr>
            ''gpt-4o-mini'' ''p'' [(''a'', PStr ''string''), (''b'', PList [PStr ''list''])] None [])
     = Inr (PDict [(''a'', PStr ''x'')])\<close>
    by (simp add: gateway_eval)
  show ?thesis using a b c d by blast
qed

text \<open>
  Claim C3.  The claim covers both handlers.  The Anthropic handler has no re-prompt and
  no default: a response that does not parse makes it raise the ValueError "Invalid JSON
  response from model" after its single request, and the manager then falls back to
  OpenAI.
\<close>

theorem anthropic_parse_failure_counterexample:
  \<open>fst (anthropic_get_structured_completion
            \<lparr>env_api = (\<lambda>p r. Inr ''not json''), env_loads = (\<lambda>s. None),
             env_dumps = (\<lambda>s. ''schema'')\<rparr>
            ''claude-3-opus-20240229'' ''p'' [(''a'', PStr ''string''), (''b'', PList [PStr ''list''])] None [])
     = Inl (ValueError ''Invalid JSON response from model'')
   \<and> map fst (snd (anthropic_get_structured_completion
            \<lparr>env_api = (\<lambda>p r. Inr ''not json''), env_loads = (\<lambda>s. None),
             env_dumps = (\<lambda>s. ''schema'')\<rparr>
            ''claude-3-opus-20240229'' ''p'' [(''a'', PStr ''string''), (''b'', PList [PStr ''list''])] None []))
     = [Anthropic]
   \<and> map fst (snd (get_structured_completion
            \<lparr>env_api = (\<lambda>p r. Inr ''not json''), env_loads = (\<lambda>s. None),
             env_dumps = (\<lambda>s. ''schema'')\<rparr>
            ''p'' [(''a'', PStr ''string''), (''b'', PList [PStr ''list''])] (Some ''cv_analysis'') None []))
     = [Anthropic, OpenAI, OpenAI]\<close>
proof -
  have a: \<open>fst (anthropic_get_structured_completion
            \<lparr>env_api = (\<lambda>p r. Inr ''not json''), env_loads = (\<lambda>s. None),
             env_dumps = (\<lambda>s. ''schema'')\<rparr>
            ''claude-3-opus-20240229'' ''p'' [(''a'', PStr ''string''), (''b'', PList [PStr ''list''])] None [])
     = Inl (ValueError ''Invalid JSON response from model'')\<close>
    by (simp add: gateway_eval)
  have b: \<open>map fst (snd (anthropic_get_structured_completion
            \<lparr>env_api = (\<lambda>p r. Inr ''not json''), env_loads = (\<lambda>s. None),
             env_dumps = (\<lambda>s. ''schema'')\<rparr>
            ''claude-3-opus-20240229'' ''p'' [(''a'', PStr ''string''), (''b'', PList [PStr ''list''])] None []))
     = [Anthropic]\<close>
    by (simp add: gateway_eval)
  have c: \<open>map fst (snd (get_structured_completion
            \<lparr>env_api = (\<lambda>p r. Inr ''not json''), env_loads = (\<lambda>s. None),
             env_dumps = (\<lambda>s. ''schema'')\<rparr>
            ''p'' [(''a'', PStr ''string''), (''b'', PList [PStr ''list''])] (Some ''cv_analysis'') None []))
     = [Anthropic, OpenAI, OpenAI]\<close>
    by (simp add: gateway_eval)
  show ?thesis using a b c by blast
qed

text \<open>
  Claim C3, amended.  For every structured-completion request to the OpenAI handler, a
  JSON-parse failure of the first response triggers exactly one re-prompt, with the
  stricter prompt and to the same provider, and nothing else is called; if that second
  response does not parse either, or the second request fails, the call returns the
  schema-shaped default object; a second response that parses is returned as it is.  No
  exception escapes the OpenAI handler's \<^verbatim>\<open>get_structured_completion\<close>, whatever the
  services do.  The Anthropic handler does not re-prompt: when its single response does
  not parse, it raises ValueError.
\<close>

theorem openai_parse_failure_reprompts_once:
  assumes "env_api e OpenAI
             (openai_request model (openai_schema_prompt e prompt sc)
                (if \<not> given sm
                 then Some ''You are a helpful assistant that always responds with valid JSON matching the requested schema.''
                 else sm) (Some 0.1) None)
           = Inr text1"
    and "env_loads e (clean_response text1) = None"
  shows "openai_get_structured_completion e model prompt sc sm sent
         = (Inr (case env_api e OpenAI
                        (openai_request model (openai_fallback_prompt e prompt sc)
                           (Some ''You must respond with only valid JSON matching the schema.'') (Some 0) None) of
                   Inl err \<Rightarrow> schema_defaults sc
                 | Inr text2 \<Rightarrow> (case env_loads e (py_strip text2) of
                                    Some v \<Rightarrow> v
                                  | None \<Rightarrow> schema_defaults sc)),
            sent @ [(OpenAI, openai_request model (openai_schema_prompt e prompt sc)
                               (if \<not> given sm
                 then Some ''You are a helpful assistant that always responds with valid JSON matching the requested schema.''
                 else sm) (Some 0.1) None),
                    (OpenAI, openai_request model (openai_fallback_prompt e prompt sc)
                               (Some ''You must respond with only valid JSON matching the schema.'') (Some 0) None)])
         \<and> (\<exists>v. fst (openai_get_structured_completion e' model' prompt' sc' sm' sent') = Inr v)
         \<and> (anthropic_request amodel (anthropic_schema_prompt e prompt sc) sm (Some 0.3) None = Inr q
              \<and> env_api e Anthropic q = Inr text \<and> anthropic_parse e text = Inl err'
            \<longrightarrow> anthropic_get_structured_completion e amodel prompt sc sm sent
                = (Inl (ValueError ''Invalid JSON response from model''), sent @ [(Anthropic, q)]))"
proof -
  have o: "openai_get_structured_completion e model prompt sc sm sent
         = (Inr (case env_api e OpenAI
                        (openai_request model (openai_fallback_prompt e prompt sc)
                           (Some ''You must respond with only valid JSON matching the schema.'') (Some 0) None) of
                   Inl err \<Rightarrow> schema_defaults sc
                 | Inr text2 \<Rightarrow> (case env_loads e (py_strip text2) of
                                    Some v \<Rightarrow> v
                                  | None \<Rightarrow> schema_defaults sc)),
            sent @ [(OpenAI, openai_request model (openai_schema_prompt e prompt sc)
                               (if \<not> given sm
                 then Some ''You are a helpful assistant that always responds with valid JSON matching the requested schema.''
                 else sm) (Some 0.1) None),
                    (OpenAI, openai_request model (openai_fallback_prompt e prompt sc)
                               (Some ''You must respond with only valid JSON matching the schema.'') (Some 0) None)])"
    using assms
    by (simp add: openai_get_structured_completion_def openai_get_completion_eq openai_reprompt_eq
        openai_parse_def call_bind_def call_catch_def split: sum.splits)
  have perr: "anthropic_parse e t = Inl x \<Longrightarrow> x = ValueError ''Invalid JSON response from model''"
    for t x
    by (auto simp: anthropic_parse_def Let_def split: if_splits option.splits)
  have a: "anthropic_request amodel (anthropic_schema_prompt e prompt sc) sm (Some 0.3) None = Inr q
              \<and> env_api e Anthropic q = Inr text \<and> anthropic_parse e text = Inl err'
            \<longrightarrow> anthropic_get_structured_completion e amodel prompt sc sm sent
                = (Inl (ValueError ''Invalid JSON response from model''), sent @ [(Anthropic, q)])"
    using perr
    by (auto simp: anthropic_get_structured_completion_def anthropic_get_completion_def
        call_bind_def)
  show ?thesis using o a openai_never_raises by blast
qed

theorem openai_parse_failure_reprompts_once_witness:
  \<open>fst (openai_get_structured_completion
            \<lparr>env_api = (\<lambda>p r. Inr ''not json''), env_loads = (\<lambda>s. None),
             env_dumps = (\<lambda>s. ''schema'')\<rparr>
            ''gpt-4o-mini'' ''p'' [(''a'', PStr ''string''), (''b'', PList [PStr ''list''])] None [])
     = Inr (PDict [(''a'', PStr []), (''b'', PList [])])
   \<and> map fst (snd (openai_get_structured_completion
            \<lparr>env_api = (\<lambda>p r. Inr ''not json''), env_loads = (\<lambda>s. None),
             env_dumps = (\<lambda>s. ''schema'')\<rparr>
            ''gpt-4o-mini'' ''p'' [(''a'', PStr ''string''), (''b'', PList [PStr ''list''])] None []))
     = [OpenAI, OpenAI]
   \<and> map (rq_prompt \<circ> snd) (snd (openai_get_structured_completion
            \<lparr>env_api = (\<lambda>p r. Inr ''not json''), env_loads = (\<lambda>s. None),
             env_dumps = (\<lambda>s. ''schema'')\<rparr>
            ''gpt-4o-mini'' ''p'' [(''a'', PStr ''string''), (''b'', PList [PStr ''list''])] None []))
     = [openai_schema_prompt
            \<lparr>env_api = (\<lambda>p r. Inr ''not json''), env_loads = (\<lambda>s. None),
             env_dumps = (\<lambda>s. ''schema'')\<rparr> ''p'' [(''a'', PStr ''string''), (''b'', PList [PStr ''list''])],
        openai_fallback_prompt
            \<lparr>env_api = (\<lambda>p r. Inr ''not json''), env_loads = (\<lambda>s. None),
             env_dumps = (\<lambda>s. ''schema'')\<rparr> ''p'' [(''a'', PStr ''string''), (''b'', PList [PStr ''list''])]]\<close>
  using openai_parse_failure_reprompts_once
    [of "
            \<lparr>env_api = (\<lambda>p r. Inr ''not json''), env_loads = (\<lambda>s. None),
             env_dumps = (\<lambda>s. ''schema'')\<rparr>" "''gpt-4o-mini''" "''p''" "[(''a'', PStr ''string''), (''b'', PList [PStr ''list''])]" None "''not json''" "[]"]
  by (simp add: schema_defaults_def default_for_def openai_request_def openai_model_configs_def
      given_def or_real_def or_int_def Let_def)

text \<open>
  The re-prompt is asked for with temperature 0.0, but \<^verbatim>\<open>get_completion\<close> reads its
  argument with \<^verbatim>\<open>temperature or ...\<close>, which takes 0.0 for a missing value: the request
  that reaches the service carries the configured temperature.
\<close>

lemma reprompt_request_temperature:
  "rq_temperature (openai_request ''gpt-4o-mini'' prompt system_message (Some 0) None) = 0.7"
  by (simp add: openai_request_def openai_model_configs_def or_real_def Let_def)

subsection \<open>Evaluating float operations\<close>

lemma pow2_powr: "pow2 n = 2 powr (real_of_int n)"
proof (cases "0 \<le> n")
  case True
  then have "real_of_int n = real (nat n)" by simp
  then show ?thesis using True by (simp add: pow2_def powr_realpow del: of_nat_nat)
next
  case False
  then have "real_of_int n = - real (nat (- n))" by simp
  then have "2 powr (real_of_int n) = 1 / 2 powr (real (nat (- n)))"
    by (simp add: powr_minus_divide del: of_nat_nat)
  then show ?thesis using False by (simp add: pow2_def powr_realpow del: of_nat_nat)
qed

lemma pow2_pos: "0 < pow2 n"
  by (simp add: pow2_powr)

lemma pow2_Suc: "pow2 (n + 1) = 2 * pow2 n"
  by (simp add: pow2_powr powr_add)

lemma pow2_pred: "pow2 (n - 1) = pow2 n / 2"
  by (simp add: pow2_powr powr_diff)

lemma pow2_mono: "m \<le> n \<Longrightarrow> pow2 m \<le> pow2 n"
  by (simp add: pow2_powr)

lemma pow2_less_iff: "pow2 m < pow2 n \<longleftrightarrow> m < n"
  by (simp add: pow2_powr)

lemma pow2_le_iff: "pow2 m \<le> pow2 n \<longleftrightarrow> m \<le> n"
  by (simp add: pow2_powr)

lemma pow2_0: "pow2 0 = 1"
  by (simp add: pow2_def)

lemma exponent_from_correct:
  "pow2 k \<le> x \<Longrightarrow> x < pow2 (k + 1) \<Longrightarrow> nat \<bar>k\<bar> \<le> n \<Longrightarrow> exponent_from n x e = e + k"
proof (induction n arbitrary: x e k)
  case 0
  then show ?case by simp
next
  case (Suc n)
  show ?case
  proof (cases "x \<ge> 2")
    case True
    have "pow2 1 \<le> x" using True by (simp add: pow2_def)
    then have "pow2 1 < pow2 (k + 1)" using Suc.prems(2) by linarith
    then have k: "1 \<le> k" by (simp add: pow2_less_iff)
    have a: "pow2 (k - 1) \<le> x / 2" using Suc.prems(1) by (simp add: pow2_pred)
    have b: "x / 2 < pow2 (k - 1 + 1)" using Suc.prems(2) by (simp add: pow2_Suc)
    have c: "nat \<bar>k - 1\<bar> \<le> n" using k Suc.prems(3) by linarith
    from Suc.IH [OF a b c] show ?thesis using True by simp
  next
    case False
    show ?thesis
    proof (cases "x < 1")
      case True
      have "pow2 k < pow2 0" using Suc.prems(1) True by (simp add: pow2_0)
      then have k: "k \<le> - 1" by (simp add: pow2_less_iff)
      have a: "pow2 (k + 1) \<le> x * 2" using Suc.prems(1) by (simp add: pow2_Suc)
      have b: "x * 2 < pow2 (k + 1 + 1)" using Suc.prems(2) pow2_Suc [of "k + 1"] by simp
      have c: "nat \<bar>k + 1\<bar> \<le> n" using k Suc.prems(3) by linarith
      from Suc.IH [OF a b c] show ?thesis using True False by simp
    next
      case False
      have "pow2 k < pow2 1" using Suc.prems(1) \<open>\<not> 2 \<le> x\<close> by (simp add: pow2_def)
      then have k1: "k \<le> 0" by (simp add: pow2_less_iff)
      have "pow2 0 < pow2 (k + 1)" using Suc.prems(2) False by (simp add: pow2_0)
      then have k2: "0 \<le> k" by (simp add: pow2_less_iff)
      show ?thesis using False \<open>\<not> 2 \<le> x\<close> k1 k2 by simp
    qed
  qed
qed

lemma exponent_of_eq:
  "pow2 k \<le> \<bar>x\<bar> \<Longrightarrow> \<bar>x\<bar> < pow2 (k + 1) \<Longrightarrow> \<bar>k\<bar> \<le> 2200 \<Longrightarrow> exponent_of x = k"
  using exponent_from_correct [of k "\<bar>x\<bar>" 2200 0] by (simp add: exponent_of_def)

lemma py_round_int_tie:
  "y = of_int m + 1 / 2 \<Longrightarrow> py_round_int y = (if even m then m else m + 1)"
proof -
  assume y: "y = of_int m + 1 / 2"
  have f: "\<lfloor>y\<rfloor> = m" unfolding y by linarith
  show ?thesis by (simp add: py_round_int_def Let_def f) (simp add: y)
qed

lemma py_round_int_dist: "\<bar>y - of_int (py_round_int y)\<bar> \<le> 1 / 2"
proof -
  have "0 \<le> y - of_int \<lfloor>y\<rfloor>" "y - of_int \<lfloor>y\<rfloor> < 1" by linarith+
  then show ?thesis by (auto simp: py_round_int_def Let_def)
qed

lemma fl_eval:
  assumes "pow2 k \<le> \<bar>x\<bar>" "\<bar>x\<bar> < pow2 (k + 1)" "- 1022 \<le> k" "k \<le> 2200"
  shows "fl x = of_int (py_round_int (x / pow2 (k - 52))) * pow2 (k - 52)"
proof -
  have nz: "x \<noteq> 0" using assms(1) pow2_pos [of k] by auto
  have e: "exponent_of x = k" using assms by (intro exponent_of_eq) auto
  have m: "max k (- 1022) = k" using assms(3) by simp
  show ?thesis using nz by (simp add: fl_def e m Let_def)
qed

lemma to_float_eval:
  assumes "pow2 k \<le> \<bar>x\<bar>" "\<bar>x\<bar> < pow2 (k + 1)" "- 1022 \<le> k" "k \<le> 1022"
    and "py_round_int (x / pow2 (k - 52)) = n"
  shows "to_float x = Fin (of_int n * pow2 (k - 52))"
proof -
  have f: "fl x = of_int n * pow2 (k - 52)" using assms fl_eval [of k x] by simp
  have q: "0 < pow2 (k - 52)" by (rule pow2_pos)
  have r: "\<bar>x / pow2 (k - 52) - of_int n\<bar> \<le> 1 / 2"
    using py_round_int_dist [of "x / pow2 (k - 52)"] assms(5) by simp
  have eq: "x - of_int n * pow2 (k - 52) = (x / pow2 (k - 52) - of_int n) * pow2 (k - 52)"
    using q by (simp add: field_simps)
  have "\<bar>x - of_int n * pow2 (k - 52)\<bar> = \<bar>x / pow2 (k - 52) - of_int n\<bar> * pow2 (k - 52)"
    using q by (simp only: eq abs_mult abs_of_pos)
  also have "\<dots> \<le> 1 / 2 * pow2 (k - 52)"
    using r q by (simp only: mult_right_mono less_imp_le)
  finally have d: "\<bar>x - of_int n * pow2 (k - 52)\<bar> \<le> pow2 (k - 52) / 2" by simp
  have "pow2 (k - 52) \<le> pow2 (k + 1)" by (simp add: pow2_le_iff)
  moreover have "0 < pow2 (k + 1)" by (rule pow2_pos)
  ultimately have "\<bar>of_int n * pow2 (k - 52)\<bar> < 2 * pow2 (k + 1)" using d assms(2) by linarith
  also have "\<dots> = pow2 (k + 2)" using pow2_Suc [of "k + 1"] by (simp add: add.commute)
  also have "\<dots> \<le> pow2 1024" using assms(4) by (simp add: pow2_le_iff)
  finally have "\<bar>of_int n * pow2 (k - 52)\<bar> < pow2 1024" .
  then show ?thesis using f by (auto simp: to_float_def Let_def)
qed

lemma to_float_near:
  assumes "pow2 k \<le> \<bar>x\<bar>" "\<bar>x\<bar> < pow2 (k + 1)" "- 1022 \<le> k" "k \<le> 1022"
    and "\<bar>x / pow2 (k - 52) - of_int n\<bar> < 1 / 2"
  shows "to_float x = Fin (of_int n * pow2 (k - 52))"
  using assms by (intro to_float_eval py_round_int_near) auto

lemma to_float_tie:
  assumes "pow2 k \<le> \<bar>x\<bar>" "\<bar>x\<bar> < pow2 (k + 1)" "- 1022 \<le> k" "k \<le> 1022"
    and "x / pow2 (k - 52) = of_int m + 1 / 2"
  shows "to_float x = Fin (of_int (if even m then m else m + 1) * pow2 (k - 52))"
  using assms by (intro to_float_eval py_round_int_tie) auto

lemma to_float_zero: "to_float 0 = Fin 0"
  by (simp add: to_float_def fl_def pow2_def)

lemma fmul_fin:
  assumes "A = Fin a" "B = Fin b" "to_float a = Fin a'" "to_float b = Fin b'"
    and "to_float (a' * b') = Fin c"
  shows "fmul A B = Fin c"
  using assms by (simp add: fmul_def)

lemma fadd_fin:
  assumes "A = Fin a" "B = Fin b" "to_float a = Fin a'" "to_float b = Fin b'"
    and "to_float (a' + b') = Fin c"
  shows "fadd A B = Fin c"
  using assms by (simp add: fadd_def)

lemma fge_fin:
  assumes "A = Fin a" "B = Fin b" "to_float a = Fin a'" "to_float b = Fin b'"
  shows "fge A B \<longleftrightarrow> a' \<ge> b'"
  using assms by (simp add: fge_def)

lemma float_round2_fin:
  assumes "A = Fin a" "to_float a = Fin a'" "py_round_int (a' * 100) = n"
    and "to_float (of_int n / 100) = Fin c"
  shows "float_round2 A = Fin c"
  using assms by (simp add: float_round2_def)

subsection \<open>The two overall aggregations\<close>

lemma overall_weights_values:
  "weight_of overall_weights ''cv'' = 0.4"
  "weight_of overall_weights ''letter'' = 0.3"
  "weight_of overall_weights ''ats'' = 0.3"
  by (simp_all add: weight_of_def overall_weights_def)

lemma quality_weights_values:
  "weight_of quality_weights ''ats_compliance'' = 0.4"
  "weight_of quality_weights ''cv_quality'' = 0.4"
  "weight_of quality_weights ''letter_quality'' = 0.2"
  by (simp_all add: weight_of_def quality_weights_def)

lemma overall_quality_fields:
  "overall_score (calculate_overall_quality cv l a)
   = float_round2 (fadd (fadd (fmul cv (Fin 0.4)) (fmul l (Fin 0.3))) (fmul a (Fin 0.3)))"
  "meets_threshold (calculate_overall_quality cv l a)
   \<longleftrightarrow> fge (fadd (fadd (fmul cv (Fin 0.4)) (fmul l (Fin 0.3))) (fmul a (Fin 0.3))) (Fin 75)"
  by (simp_all add: calculate_overall_quality_def Let_def overall_weights_values
      overall_minimum_score_def)

lemma aggregate_results_score:
  assumes "py_getitem ar ''overall_score'' = Inr av" "float_operand av = Inr a"
    and "py_getitem cr ''overall_score'' = Inr cv" "float_operand cv = Inr c"
    and "py_getitem lr ''overall_score'' = Inr lv" "float_operand lv = Inr l"
  shows "aggregate_results ar cr lr =
    Inr \<lparr>agg_overall_score =
           float_round2 (fadd (fadd (fmul a (Fin 0.4)) (fmul c (Fin 0.4))) (fmul l (Fin 0.2))),
         agg_component_scores = [(''ats_compliance'', av), (''cv_quality'', cv),
                                 (''letter_quality'', lv)]\<rparr>"
  using assms by (simp add: aggregate_results_def bind_exn_def Let_def quality_weights_values)

lemma score_dict_read:
  "py_getitem (PDict [(''overall_score'', v)]) ''overall_score'' = Inr v"
  by (simp add: py_getitem_def)

lemma float_operand_float: "to_float x = Fin y \<Longrightarrow> float_operand (PFloat x) = Inr (Fin y)"
  by (simp add: float_operand_def)

text \<open>
  Claim C8.  As stated, the claim ties \<^verbatim>\<open>meets_threshold\<close> to the returned, rounded
  score.  The code compares the weighted sum before rounding: for the scores
  (74.99, 75, 75) the float sum is 74.996, the returned score is 75.0 and
  \<^verbatim>\<open>meets_threshold\<close> is false.
\<close>

theorem overall_quality_threshold_counterexample:
  "\<not> (meets_threshold (calculate_overall_quality (Fin 74.99) (Fin 75) (Fin 75))
       \<longleftrightarrow> fge (overall_score (calculate_overall_quality (Fin 74.99) (Fin 75) (Fin 75)))
               (Fin 75))"
proof -
  have a1: "to_float (7499 / 100) = Fin (5276952125883023 / 70368744177664)"
    using to_float_near [of "6" "(7499 / 100)" "5276952125883023"] by (simp add: pow2_def)
  have a2: "to_float (2 / 5) = Fin (3602879701896397 / 9007199254740992)"
    using to_float_near [of "-2" "(2 / 5)" "7205759403792794"] by (simp add: pow2_def)
  have a3: "to_float (19012223702222984322001287168131 / 633825300114114700748351602688) = Fin (8443123401412837 / 281474976710656)"
    using to_float_near [of "4" "(19012223702222984322001287168131 / 633825300114114700748351602688)" "8443123401412837"] by (simp add: pow2_def)
  have a4: "fmul (Fin (7499 / 100)) (Fin (2 / 5)) = Fin (8443123401412837 / 281474976710656)"
    using fmul_fin [OF refl refl a1 a2, of "(8443123401412837 / 281474976710656)"] a3 by simp
  have a5: "to_float 75 = Fin 75"
    using to_float_near [of "6" "75" "5277655813324800"] by (simp add: pow2_def)
  have a6: "to_float (3 / 10) = Fin (5404319552844595 / 18014398509481984)"
    using to_float_near [of "-2" "(3 / 10)" "5404319552844595"] by (simp add: pow2_def)
  have a7: "to_float (405323966463344625 / 18014398509481984) = Fin (45 / 2)"
    using to_float_near [of "4" "(405323966463344625 / 18014398509481984)" "6333186975989760"] by (simp add: pow2_def)
  have a8: "fmul (Fin 75) (Fin (3 / 10)) = Fin (45 / 2)"
    using fmul_fin [OF refl refl a5 a6, of "(45 / 2)"] a7 by simp
  have a9: "fmul (Fin 75) (Fin (3 / 10)) = Fin (45 / 2)"
    using fmul_fin [OF refl refl a5 a6, of "(45 / 2)"] a7 by simp
  have a10: "to_float (8443123401412837 / 281474976710656) = Fin (8443123401412837 / 281474976710656)"
    using to_float_near [of "4" "(8443123401412837 / 281474976710656)" "8443123401412837"] by (simp add: pow2_def)
  have a11: "to_float (45 / 2) = Fin (45 / 2)"
    using to_float_near [of "4" "(45 / 2)" "6333186975989760"] by (simp add: pow2_def)
  have a12: "to_float (14776310377402597 / 281474976710656) = Fin (3694077594350649 / 70368744177664)"
    using to_float_tie [of "5" "(14776310377402597 / 281474976710656)" "7388155188701298"] by (simp add: pow2_def)
  have a13: "fadd (fmul (Fin (7499 / 100)) (Fin (2 / 5))) (fmul (Fin 75) (Fin (3 / 10))) = Fin (3694077594350649 / 70368744177664)"
    using fadd_fin [OF a4 a8 a10 a11, of "(3694077594350649 / 70368744177664)"] a12 by simp
  have a14: "to_float (3694077594350649 / 70368744177664) = Fin (3694077594350649 / 70368744177664)"
    using to_float_near [of "5" "(3694077594350649 / 70368744177664)" "7388155188701298"] by (simp add: pow2_def)
  have a15: "to_float (5277374338348089 / 70368744177664) = Fin (5277374338348089 / 70368744177664)"
    using to_float_near [of "6" "(5277374338348089 / 70368744177664)" "5277374338348089"] by (simp add: pow2_def)
  have a16: "fadd (fadd (fmul (Fin (7499 / 100)) (Fin (2 / 5))) (fmul (Fin 75) (Fin (3 / 10)))) (fmul (Fin 75) (Fin (3 / 10))) = Fin (5277374338348089 / 70368744177664)"
    using fadd_fin [OF a13 a9 a14 a11, of "(5277374338348089 / 70368744177664)"] a15 by simp
  have a17: "py_round_int ((5277374338348089 / 70368744177664) * 100) = 7500"
    using py_round_int_near [of "(5277374338348089 / 70368744177664) * 100" "7500"] by simp
  have a18: "float_round2 (fadd (fadd (fmul (Fin (7499 / 100)) (Fin (2 / 5))) (fmul (Fin 75) (Fin (3 / 10)))) (fmul (Fin 75) (Fin (3 / 10)))) = Fin 75"
    using float_round2_fin [OF a16 a15 a17, of "75"] a5 by simp
  have a19: "\<not> fge (fadd (fadd (fmul (Fin (7499 / 100)) (Fin (2 / 5))) (fmul (Fin 75) (Fin (3 / 10)))) (fmul (Fin 75) (Fin (3 / 10)))) (Fin 75)"
    using fge_fin [OF a16 refl a15 a5] by simp
  have a20: "fge (float_round2 (fadd (fadd (fmul (Fin (7499 / 100)) (Fin (2 / 5))) (fmul (Fin 75) (Fin (3 / 10)))) (fmul (Fin 75) (Fin (3 / 10))))) (Fin 75)"
    using fge_fin [OF a18 refl a5 a5] by simp
  show ?thesis
    using a18 a19 a20 by (simp add: overall_quality_fields)
qed

text \<open>
  Claim C8, amended.  \<^verbatim>\<open>calculate_overall_quality\<close> returns
  round(cv*0.4 + letter*0.3 + ats*0.3, 2), in float arithmetic, with \<^verbatim>\<open>meets_threshold\<close>
  exactly when the unrounded float sum is at least 75; \<^verbatim>\<open>_aggregate_results\<close> returns
  round(ats*0.4 + cv*0.4 + letter*0.2, 2) on result mappings whose \<^verbatim>\<open>overall_score\<close> is
  a number; the weights of both tables sum to 1; and the two functions disagree on the
  triple cv = 0, letter = 100, ats = 0 (30 against 20).
\<close>

theorem overall_aggregations_distinct:
  "overall_score (calculate_overall_quality cv l a)
     = float_round2 (fadd (fadd (fmul cv (Fin 0.4)) (fmul l (Fin 0.3))) (fmul a (Fin 0.3)))
   \<and> (meets_threshold (calculate_overall_quality cv l a)
        \<longleftrightarrow> fge (fadd (fadd (fmul cv (Fin 0.4)) (fmul l (Fin 0.3))) (fmul a (Fin 0.3)))
                (Fin 75))
   \<and> (py_getitem ar ''overall_score'' = Inr av \<and> float_operand av = Inr a'
      \<and> py_getitem cr ''overall_score'' = Inr cvv \<and> float_operand cvv = Inr cv'
      \<and> py_getitem lr ''overall_score'' = Inr lv \<and> float_operand lv = Inr l'
      \<longrightarrow> (\<exists>r. aggregate_results ar cr lr = Inr r
              \<and> agg_overall_score r
                  = float_round2 (fadd (fadd (fmul a' (Fin 0.4)) (fmul cv' (Fin 0.4)))
                                       (fmul l' (Fin 0.2)))))
   \<and> sum_list (map snd overall_weights) = 1
   \<and> sum_list (map snd quality_weights) = 1
   \<and> (\<exists>r. aggregate_results (PDict [(''overall_score'', PFloat 0)])
               (PDict [(''overall_score'', PFloat 0)])
               (PDict [(''overall_score'', PFloat 100)]) = Inr r
           \<and> agg_overall_score r = Fin 20
           \<and> overall_score (calculate_overall_quality (Fin 0) (Fin 100) (Fin 0)) = Fin 30)"
proof -
  have w1: "sum_list (map snd overall_weights) = 1"
    by (simp add: overall_weights_def)
  have w2: "sum_list (map snd quality_weights) = 1"
    by (simp add: quality_weights_def)
  have b1: "to_float 0 = Fin 0" by (rule to_float_zero)
  have b2: "to_float (2 / 5) = Fin (3602879701896397 / 9007199254740992)"
    using to_float_near [of "-2" "(2 / 5)" "7205759403792794"] by (simp add: pow2_def)
  have b3: "fmul (Fin 0) (Fin (2 / 5)) = Fin 0"
    using fmul_fin [OF refl refl b1 b2, of "0"] b1 by simp
  have b4: "to_float 100 = Fin 100"
    using to_float_near [of "6" "100" "7036874417766400"] by (simp add: pow2_def)
  have b5: "to_float (3 / 10) = Fin (5404319552844595 / 18014398509481984)"
    using to_float_near [of "-2" "(3 / 10)" "5404319552844595"] by (simp add: pow2_def)
  have b6: "to_float (135107988821114875 / 4503599627370496) = Fin 30"
    using to_float_near [of "4" "(135107988821114875 / 4503599627370496)" "8444249301319680"] by (simp add: pow2_def)
  have b7: "fmul (Fin 100) (Fin (3 / 10)) = Fin 30"
    using fmul_fin [OF refl refl b4 b5, of "30"] b6 by simp
  have b8: "fmul (Fin 0) (Fin (3 / 10)) = Fin 0"
    using fmul_fin [OF refl refl b1 b5, of "0"] b1 by simp
  have b9: "to_float 30 = Fin 30"
    using to_float_near [of "4" "30" "8444249301319680"] by (simp add: pow2_def)
  have b10: "fadd (fmul (Fin 0) (Fin (2 / 5))) (fmul (Fin 100) (Fin (3 / 10))) = Fin 30"
    using fadd_fin [OF b3 b7 b1 b9, of "30"] b9 by simp
  have b11: "fadd (fadd (fmul (Fin 0) (Fin (2 / 5))) (fmul (Fin 100) (Fin (3 / 10)))) (fmul (Fin 0) (Fin (3 / 10))) = Fin 30"
    using fadd_fin [OF b10 b8 b9 b1, of "30"] b9 by simp
  have b12: "py_round_int (30 * 100) = 3000"
    using py_round_int_near [of "30 * 100" "3000"] by simp
  have b13: "float_round2 (fadd (fadd (fmul (Fin 0) (Fin (2 / 5))) (fmul (Fin 100) (Fin (3 / 10)))) (fmul (Fin 0) (Fin (3 / 10)))) = Fin 30"
    using float_round2_fin [OF b11 b9 b12, of "30"] b9 by simp
  have b14: "fmul (Fin 0) (Fin (2 / 5)) = Fin 0"
    using fmul_fin [OF refl refl b1 b2, of "0"] b1 by simp
  have b15: "fmul (Fin 0) (Fin (2 / 5)) = Fin 0"
    using fmul_fin [OF refl refl b1 b2, of "0"] b1 by simp
  have b16: "to_float (1 / 5) = Fin (3602879701896397 / 18014398509481984)"
    using to_float_near [of "-3" "(1 / 5)" "7205759403792794"] by (simp add: pow2_def)
  have b17: "to_float (90071992547409925 / 4503599627370496) = Fin 20"
    using to_float_near [of "4" "(90071992547409925 / 4503599627370496)" "5629499534213120"] by (simp add: pow2_def)
  have b18: "fmul (Fin 100) (Fin (1 / 5)) = Fin 20"
    using fmul_fin [OF refl refl b4 b16, of "20"] b17 by simp
  have b19: "fadd (fmul (Fin 0) (Fin (2 / 5))) (fmul (Fin 0) (Fin (2 / 5))) = Fin 0"
    using fadd_fin [OF b14 b15 b1 b1, of "0"] b1 by simp
  have b20: "to_float 20 = Fin 20"
    using to_float_near [of "4" "20" "5629499534213120"] by (simp add: pow2_def)
  have b21: "fadd (fadd (fmul (Fin 0) (Fin (2 / 5))) (fmul (Fin 0) (Fin (2 / 5)))) (fmul (Fin 100) (Fin (1 / 5))) = Fin 20"
    using fadd_fin [OF b19 b18 b1 b20, of "20"] b20 by simp
  have b22: "py_round_int (20 * 100) = 2000"
    using py_round_int_near [of "20 * 100" "2000"] by simp
  have b23: "float_round2 (fadd (fadd (fmul (Fin 0) (Fin (2 / 5))) (fmul (Fin 0) (Fin (2 / 5)))) (fmul (Fin 100) (Fin (1 / 5)))) = Fin 20"
    using float_round2_fin [OF b21 b20 b22, of "20"] b20 by simp
  have q: "overall_score (calculate_overall_quality (Fin 0) (Fin 100) (Fin 0)) = Fin 30"
    using b13 by (simp add: overall_quality_fields)
  have d: "\<exists>r. aggregate_results (PDict [(''overall_score'', PFloat 0)])
               (PDict [(''overall_score'', PFloat 0)])
               (PDict [(''overall_score'', PFloat 100)]) = Inr r
           \<and> agg_overall_score r = Fin 20
           \<and> overall_score (calculate_overall_quality (Fin 0) (Fin 100) (Fin 0)) = Fin 30"
    using b23 q
    by (simp add: aggregate_results_score [OF score_dict_read float_operand_float [OF b1]
          score_dict_read float_operand_float [OF b1]
          score_dict_read float_operand_float [OF b4]])
  show ?thesis
    using w1 w2 d by (simp add: overall_quality_fields aggregate_results_score)
qed

theorem overall_aggregations_distinct_witness:
  "overall_score (calculate_overall_quality (Fin 88.5) (Fin 96) (Fin 36)) = Fin 75
   \<and> \<not> meets_threshold (calculate_overall_quality (Fin 88.5) (Fin 96) (Fin 36))
   \<and> (\<exists>r. aggregate_results (PDict [(''overall_score'', PFloat 60)])
               (PDict [(''overall_score'', PFloat 60)])
               (PDict [(''overall_score'', PFloat 60.875)]) = Inr r
           \<and> agg_overall_score r = to_float 60.17)"
proof -
  have c1: "to_float (177 / 2) = Fin (177 / 2)"
    using to_float_near [of "6" "(177 / 2)" "6227633859723264"] by (simp add: pow2_def)
  have c2: "to_float (2 / 5) = Fin (3602879701896397 / 9007199254740992)"
    using to_float_near [of "-2" "(2 / 5)" "7205759403792794"] by (simp add: pow2_def)
  have c3: "to_float (637709707235662269 / 18014398509481984) = Fin (4982107087778611 / 140737488355328)"
    using to_float_near [of "5" "(637709707235662269 / 18014398509481984)" "4982107087778611"] by (simp add: pow2_def)
  have c4: "fmul (Fin (177 / 2)) (Fin (2 / 5)) = Fin (4982107087778611 / 140737488355328)"
    using fmul_fin [OF refl refl c1 c2, of "(4982107087778611 / 140737488355328)"] c3 by simp
  have c5: "to_float 96 = Fin 96"
    using to_float_near [of "6" "96" "6755399441055744"] by (simp add: pow2_def)
  have c6: "to_float (3 / 10) = Fin (5404319552844595 / 18014398509481984)"
    using to_float_near [of "-2" "(3 / 10)" "5404319552844595"] by (simp add: pow2_def)
  have c7: "to_float (16212958658533785 / 562949953421312) = Fin (2026619832316723 / 70368744177664)"
    using to_float_tie [of "4" "(16212958658533785 / 562949953421312)" "8106479329266892"] by (simp add: pow2_def)
  have c8: "fmul (Fin 96) (Fin (3 / 10)) = Fin (2026619832316723 / 70368744177664)"
    using fmul_fin [OF refl refl c5 c6, of "(2026619832316723 / 70368744177664)"] c7 by simp
  have c9: "to_float 36 = Fin 36"
    using to_float_near [of "5" "36" "5066549580791808"] by (simp add: pow2_def)
  have c10: "to_float (48638875975601355 / 4503599627370496) = Fin (6079859496950169 / 562949953421312)"
    using to_float_near [of "3" "(48638875975601355 / 4503599627370496)" "6079859496950169"] by (simp add: pow2_def)
  have c11: "fmul (Fin 36) (Fin (3 / 10)) = Fin (6079859496950169 / 562949953421312)"
    using fmul_fin [OF refl refl c9 c6, of "(6079859496950169 / 562949953421312)"] c10 by simp
  have c12: "to_float (4982107087778611 / 140737488355328) = Fin (4982107087778611 / 140737488355328)"
    using to_float_near [of "5" "(4982107087778611 / 140737488355328)" "4982107087778611"] by (simp add: pow2_def)
  have c13: "to_float (2026619832316723 / 70368744177664) = Fin (2026619832316723 / 70368744177664)"
    using to_float_near [of "4" "(2026619832316723 / 70368744177664)" "8106479329266892"] by (simp add: pow2_def)
  have c14: "to_float (9035346752412057 / 140737488355328) = Fin (1129418344051507 / 17592186044416)"
    using to_float_tie [of "6" "(9035346752412057 / 140737488355328)" "4517673376206028"] by (simp add: pow2_def)
  have c15: "fadd (fmul (Fin (177 / 2)) (Fin (2 / 5))) (fmul (Fin 96) (Fin (3 / 10))) = Fin (1129418344051507 / 17592186044416)"
    using fadd_fin [OF c4 c8 c12 c13, of "(1129418344051507 / 17592186044416)"] c14 by simp
  have c16: "to_float (1129418344051507 / 17592186044416) = Fin (1129418344051507 / 17592186044416)"
    using to_float_near [of "6" "(1129418344051507 / 17592186044416)" "4517673376206028"] by (simp add: pow2_def)
  have c17: "to_float (6079859496950169 / 562949953421312) = Fin (6079859496950169 / 562949953421312)"
    using to_float_near [of "3" "(6079859496950169 / 562949953421312)" "6079859496950169"] by (simp add: pow2_def)
  have c18: "to_float (42221246506598393 / 562949953421312) = Fin (5277655813324799 / 70368744177664)"
    using to_float_near [of "6" "(42221246506598393 / 562949953421312)" "5277655813324799"] by (simp add: pow2_def)
  have c19: "fadd (fadd (fmul (Fin (177 / 2)) (Fin (2 / 5))) (fmul (Fin 96) (Fin (3 / 10)))) (fmul (Fin 36) (Fin (3 / 10))) = Fin (5277655813324799 / 70368744177664)"
    using fadd_fin [OF c15 c11 c16 c17, of "(5277655813324799 / 70368744177664)"] c18 by simp
  have c20: "to_float (5277655813324799 / 70368744177664) = Fin (5277655813324799 / 70368744177664)"
    using to_float_near [of "6" "(5277655813324799 / 70368744177664)" "5277655813324799"] by (simp add: pow2_def)
  have c21: "py_round_int ((5277655813324799 / 70368744177664) * 100) = 7500"
    using py_round_int_near [of "(5277655813324799 / 70368744177664) * 100" "7500"] by simp
  have c22: "to_float 75 = Fin 75"
    using to_float_near [of "6" "75" "5277655813324800"] by (simp add: pow2_def)
  have c23: "float_round2 (fadd (fadd (fmul (Fin (177 / 2)) (Fin (2 / 5))) (fmul (Fin 96) (Fin (3 / 10)))) (fmul (Fin 36) (Fin (3 / 10)))) = Fin 75"
    using float_round2_fin [OF c19 c20 c21, of "75"] c22 by simp
  have c24: "\<not> fge (fadd (fadd (fmul (Fin (177 / 2)) (Fin (2 / 5))) (fmul (Fin 96) (Fin (3 / 10)))) (fmul (Fin 36) (Fin (3 / 10)))) (Fin 75)"
    using fge_fin [OF c19 refl c20 c22] by simp
  have c25: "to_float 60 = Fin 60"
    using to_float_near [of "5" "60" "8444249301319680"] by (simp add: pow2_def)
  have c26: "to_float (54043195528445955 / 2251799813685248) = Fin 24"
    using to_float_near [of "4" "(54043195528445955 / 2251799813685248)" "6755399441055744"] by (simp add: pow2_def)
  have c27: "fmul (Fin 60) (Fin (2 / 5)) = Fin 24"
    using fmul_fin [OF refl refl c25 c2, of "24"] c26 by simp
  have c28: "fmul (Fin 60) (Fin (2 / 5)) = Fin 24"
    using fmul_fin [OF refl refl c25 c2, of "24"] c26 by simp
  have c29: "to_float (487 / 8) = Fin (487 / 8)"
    using to_float_near [of "5" "(487 / 8)" "8567394603630592"] by (simp add: pow2_def)
  have c30: "to_float (1 / 5) = Fin (3602879701896397 / 18014398509481984)"
    using to_float_near [of "-3" "(1 / 5)" "7205759403792794"] by (simp add: pow2_def)
  have c31: "to_float (1754602414823545339 / 144115188075855872) = Fin (3426957841452237 / 281474976710656)"
    using to_float_near [of "3" "(1754602414823545339 / 144115188075855872)" "6853915682904474"] by (simp add: pow2_def)
  have c32: "fmul (Fin (487 / 8)) (Fin (1 / 5)) = Fin (3426957841452237 / 281474976710656)"
    using fmul_fin [OF refl refl c29 c30, of "(3426957841452237 / 281474976710656)"] c31 by simp
  have c33: "to_float 24 = Fin 24"
    using to_float_near [of "4" "24" "6755399441055744"] by (simp add: pow2_def)
  have c34: "to_float 48 = Fin 48"
    using to_float_near [of "5" "48" "6755399441055744"] by (simp add: pow2_def)
  have c35: "fadd (fmul (Fin 60) (Fin (2 / 5))) (fmul (Fin 60) (Fin (2 / 5))) = Fin 48"
    using fadd_fin [OF c27 c28 c33 c33, of "48"] c34 by simp
  have c36: "to_float (3426957841452237 / 281474976710656) = Fin (3426957841452237 / 281474976710656)"
    using to_float_near [of "3" "(3426957841452237 / 281474976710656)" "6853915682904474"] by (simp add: pow2_def)
  have c37: "to_float (16937756723563725 / 281474976710656) = Fin (4234439180890931 / 70368744177664)"
    using to_float_tie [of "5" "(16937756723563725 / 281474976710656)" "8468878361781862"] by (simp add: pow2_def)
  have c38: "fadd (fadd (fmul (Fin 60) (Fin (2 / 5))) (fmul (Fin 60) (Fin (2 / 5)))) (fmul (Fin (487 / 8)) (Fin (1 / 5))) = Fin (4234439180890931 / 70368744177664)"
    using fadd_fin [OF c35 c32 c34 c36, of "(4234439180890931 / 70368744177664)"] c37 by simp
  have c39: "to_float (4234439180890931 / 70368744177664) = Fin (4234439180890931 / 70368744177664)"
    using to_float_near [of "5" "(4234439180890931 / 70368744177664)" "8468878361781862"] by (simp add: pow2_def)
  have c40: "py_round_int ((4234439180890931 / 70368744177664) * 100) = 6017"
    using py_round_int_near [of "(4234439180890931 / 70368744177664) * 100" "6017"] by simp
  have c41: "to_float (6017 / 100) = Fin (4234087337170043 / 70368744177664)"
    using to_float_near [of "5" "(6017 / 100)" "8468174674340086"] by (simp add: pow2_def)
  have c42: "float_round2 (fadd (fadd (fmul (Fin 60) (Fin (2 / 5))) (fmul (Fin 60) (Fin (2 / 5)))) (fmul (Fin (487 / 8)) (Fin (1 / 5)))) = Fin (4234087337170043 / 70368744177664)"
    using float_round2_fin [OF c38 c39 c40, of "(4234087337170043 / 70368744177664)"] c41 by simp
  have o60: "float_operand (PFloat 60) = Inr (Fin 60)"
    using float_operand_float [OF c25] by simp
  have o60875: "float_operand (PFloat 60.875) = Inr (Fin 60.875)"
    using float_operand_float [OF c29] by simp
  show ?thesis
    using overall_aggregations_distinct [of "Fin 88.5" "Fin 96" "Fin 36"
        "PDict [(''overall_score'', PFloat 60)]" "PFloat 60" "Fin 60"
        "PDict [(''overall_score'', PFloat 60)]" "PFloat 60" "Fin 60"
        "PDict [(''overall_score'', PFloat 60.875)]" "PFloat 60.875" "Fin 60.875"]
      c23 c24 c42 c41 o60 o60875
    by (auto simp: score_dict_read)
qed

subsection \<open>The skills match\<close>

lemma matching_weights_values:
  "weight_of matching_weights ''required_skills'' = 0.4"
  "weight_of matching_weights ''experience'' = 0.3"
  "weight_of matching_weights ''education'' = 0.2"
  by (simp_all add: weight_of_def matching_weights_def)

text \<open>A quotient between 0 and 1 is far from overflow, so the division of two sizes cannot raise.\<close>

lemma exponent_from_le: "x < 2 \<Longrightarrow> exponent_from n x e \<le> e"
proof (induction n arbitrary: x e)
  case 0
  then show ?case by simp
next
  case (Suc n)
  show ?case
  proof (cases "x < 1")
    case True
    then have "exponent_from n (x * 2) (e - 1) \<le> e - 1" by (intro Suc.IH) simp
    then show ?thesis using True by simp
  next
    case False
    then show ?thesis using Suc.prems by simp
  qed
qed

lemma fl_unit:
  assumes "0 \<le> x" "x \<le> 1"
  shows "\<bar>fl x\<bar> \<le> 2"
proof (cases "x = 0")
  case True
  then show ?thesis by (simp add: fl_def)
next
  case False
  define q where "q = pow2 (max (exponent_of x) (- 1022) - 52)"
  have e: "exponent_of x \<le> 0"
    using exponent_from_le [of "\<bar>x\<bar>" 2200 0] assms by (simp add: exponent_of_def)
  have qp: "0 < q" by (simp add: q_def pow2_pos)
  have "q \<le> pow2 0" unfolding q_def using e by (intro pow2_mono) simp
  then have q1: "q \<le> 1" by (simp add: pow2_0)
  have f: "fl x = of_int (py_round_int (x / q)) * q"
    using False by (simp add: fl_def q_def Let_def)
  have d: "\<bar>x / q - of_int (py_round_int (x / q))\<bar> \<le> 1 / 2" by (rule py_round_int_dist)
  have "x - fl x = (x / q - of_int (py_round_int (x / q))) * q"
    using qp by (simp add: f field_simps)
  then have "\<bar>x - fl x\<bar> = \<bar>x / q - of_int (py_round_int (x / q))\<bar> * q"
    using qp by (simp add: abs_mult)
  also have "\<dots> \<le> 1 / 2 * q" using d qp by (intro mult_right_mono) simp_all
  finally have "\<bar>x - fl x\<bar> \<le> 1 / 2" using q1 by simp
  then show ?thesis using assms by linarith
qed

lemma to_float_unit:
  assumes "0 \<le> x" "x \<le> 1"
  shows "to_float x = Fin (fl x)"
proof -
  have b: "2 < pow2 1024" by (simp add: pow2_def)
  have "\<bar>fl x\<bar> \<le> 2" using assms by (rule fl_unit)
  then have "\<not> fl x \<ge> pow2 1024" "\<not> fl x \<le> - pow2 1024" using b by linarith+
  then show ?thesis by (simp add: to_float_def Let_def)
qed

lemma int_truediv_unit:
  "0 \<le> a \<Longrightarrow> a \<le> b \<Longrightarrow> 0 < b \<Longrightarrow>
   int_truediv a b = Inr (to_float (real_of_int a / real_of_int b))"
  using to_float_unit [of "real_of_int a / real_of_int b"] by (simp add: int_truediv_def)

lemma recall_score_spec:
  assumes "finite R"
  shows "recall_score (C \<inter> R) R = Inr (spec_recall C R)"
proof (cases "R = {}")
  case True
  then show ?thesis by (simp add: recall_score_def spec_recall_def)
next
  case False
  then have p: "0 < card R" using assms by (simp add: card_gt_0_iff)
  have l: "card (C \<inter> R) \<le> card R" using assms by (intro card_mono) auto
  show ?thesis
    using False p l assms
      int_truediv_unit [of "int (card (C \<inter> R))" "int (card R)"]
    by (simp add: recall_score_def spec_recall_def bind_exn_def)
qed

lemma py_set_finite: "py_set v = Inr S \<Longrightarrow> finite S"
  by (auto simp: py_set_def bind_exn_def split: sum.splits)

lemma skills_sets_finite:
  "job_required_skills j = Inr S \<Longrightarrow> finite S"
  "job_preferred_skills j = Inr S \<Longrightarrow> finite S"
  "cv_technical_skills j = Inr S \<Longrightarrow> finite S"
  by (auto simp: job_required_skills_def job_preferred_skills_def cv_technical_skills_def
      bind_exn_def split: sum.splits dest: py_set_finite)

lemma skills_match_score:
  assumes "job_required_skills job = Inr R" "job_preferred_skills job = Inr P"
    "cv_technical_skills cv = Inr C"
  shows "sm_score (calculate_skills_match cv job)
         = float_round2 (fadd (fmul (spec_recall C R) (Fin 0.7))
                              (fmul (spec_recall C P) (Fin 0.3)))"
proof -
  have "finite R" "finite P" using assms skills_sets_finite by blast+
  then show ?thesis
    using assms by (simp add: calculate_skills_match_def bind_exn_def Let_def recall_score_spec)
qed

lemma skills_match_zero:
  assumes "job_required_skills job = Inl e \<or> job_preferred_skills job = Inl e
     \<or> cv_technical_skills cv = Inl e"
  shows "sm_score (calculate_skills_match cv job) = Fin 0"
  using assms by (auto simp: calculate_skills_match_def bind_exn_def Let_def split: sum.splits)

lemma demo_sets:
  "job_required_skills (PDict [(''requirements'',
      PDict [(''required_skills'', PList [PStr ''Python'', PStr ''SQL'', PStr ''Go''])])])
   = Inr {AStr ''Python'', AStr ''SQL'', AStr ''Go''}"
  "job_preferred_skills (PDict [(''requirements'',
      PDict [(''required_skills'', PList [PStr ''Python'', PStr ''SQL'', PStr ''Go''])])])
   = Inr {}"
  "cv_technical_skills (PDict [(''skills'', PDict [(''technical_skills'', PList [PStr ''Python''])])])
   = Inr {AStr ''Python''}"
  by (simp_all add: job_required_skills_def job_preferred_skills_def cv_technical_skills_def
      bind_exn_def py_get_def py_set_def py_iter_def py_hashable_def)

lemma demo_recall:
  "spec_recall {AStr ''Python''} {AStr ''Python'', AStr ''SQL'', AStr ''Go''}
   = fmul (to_float (1 / 3)) (Fin 100)"
  "spec_recall {AStr ''Python''} {} = Fin 100"
  by (simp_all add: spec_recall_def)

text \<open>
  Claim C6.  As stated, the score is the weighted recall itself.  The code rounds it to
  two decimals: with one of three required skills in the CV and no preferred skills the
  weighted recall is the float 53.33333333333333, and the score is 53.33.
\<close>

theorem skills_match_unrounded_counterexample:
  "sm_score (calculate_skills_match
       (PDict [(''skills'', PDict [(''technical_skills'', PList [PStr ''Python''])])])
       (PDict [(''requirements'',
          PDict [(''required_skills'', PList [PStr ''Python'', PStr ''SQL'', PStr ''Go''])])]))
   = to_float 53.33
   \<and> sm_score (calculate_skills_match
       (PDict [(''skills'', PDict [(''technical_skills'', PList [PStr ''Python''])])])
       (PDict [(''requirements'',
          PDict [(''required_skills'', PList [PStr ''Python'', PStr ''SQL'', PStr ''Go''])])]))
   \<noteq> fadd (fmul (spec_recall {AStr ''Python''} {AStr ''Python'', AStr ''SQL'', AStr ''Go''})
                 (Fin 0.7))
           (fmul (spec_recall {AStr ''Python''} {}) (Fin 0.3))"
proof -
  have a1: "to_float (1 / 3) = Fin (6004799503160661 / 18014398509481984)"
    using to_float_near [of "-2" "(1 / 3)" "6004799503160661"] by (simp add: pow2_def)
  have a2: "to_float (6004799503160661 / 18014398509481984) = Fin (6004799503160661 / 18014398509481984)"
    using to_float_near [of "-2" "(6004799503160661 / 18014398509481984)" "6004799503160661"] by (simp add: pow2_def)
  have a3: "to_float 100 = Fin 100"
    using to_float_near [of "6" "100" "7036874417766400"] by (simp add: pow2_def)
  have a4: "to_float (150119987579016525 / 4503599627370496) = Fin (2345624805922133 / 70368744177664)"
    using to_float_near [of "5" "(150119987579016525 / 4503599627370496)" "4691249611844266"] by (simp add: pow2_def)
  have a5: "fmul (to_float (1 / 3)) (Fin 100) = Fin (2345624805922133 / 70368744177664)"
    using fmul_fin [OF a1 refl a2 a3, of "(2345624805922133 / 70368744177664)"] a4 by simp
  have a6: "to_float (2345624805922133 / 70368744177664) = Fin (2345624805922133 / 70368744177664)"
    using to_float_near [of "5" "(2345624805922133 / 70368744177664)" "4691249611844266"] by (simp add: pow2_def)
  have a7: "to_float (7 / 10) = Fin (3152519739159347 / 4503599627370496)"
    using to_float_near [of "-1" "(7 / 10)" "6305039478318694"] by (simp add: pow2_def)
  have a8: "to_float (7394628501331336655432561127151 / 316912650057057350374175801344) = Fin (1641937364145493 / 70368744177664)"
    using to_float_near [of "4" "(7394628501331336655432561127151 / 316912650057057350374175801344)" "6567749456581972"] by (simp add: pow2_def)
  have a9: "fmul (fmul (to_float (1 / 3)) (Fin 100)) (Fin (7 / 10)) = Fin (1641937364145493 / 70368744177664)"
    using fmul_fin [OF a5 refl a6 a7, of "(1641937364145493 / 70368744177664)"] a8 by simp
  have a10: "to_float (3 / 10) = Fin (5404319552844595 / 18014398509481984)"
    using to_float_near [of "-2" "(3 / 10)" "5404319552844595"] by (simp add: pow2_def)
  have a11: "to_float (135107988821114875 / 4503599627370496) = Fin 30"
    using to_float_near [of "4" "(135107988821114875 / 4503599627370496)" "8444249301319680"] by (simp add: pow2_def)
  have a12: "fmul (Fin 100) (Fin (3 / 10)) = Fin 30"
    using fmul_fin [OF refl refl a3 a10, of "30"] a11 by simp
  have a13: "to_float (1641937364145493 / 70368744177664) = Fin (1641937364145493 / 70368744177664)"
    using to_float_near [of "4" "(1641937364145493 / 70368744177664)" "6567749456581972"] by (simp add: pow2_def)
  have a14: "to_float 30 = Fin 30"
    using to_float_near [of "4" "30" "8444249301319680"] by (simp add: pow2_def)
  have a15: "to_float (3752999689475413 / 70368744177664) = Fin (3752999689475413 / 70368744177664)"
    using to_float_near [of "5" "(3752999689475413 / 70368744177664)" "7505999378950826"] by (simp add: pow2_def)
  have a16: "fadd (fmul (fmul (to_float (1 / 3)) (Fin 100)) (Fin (7 / 10))) (fmul (Fin 100) (Fin (3 / 10))) = Fin (3752999689475413 / 70368744177664)"
    using fadd_fin [OF a9 a12 a13 a14, of "(3752999689475413 / 70368744177664)"] a15 by simp
  have a17: "py_round_int ((3752999689475413 / 70368744177664) * 100) = 5333"
    using py_round_int_near [of "(3752999689475413 / 70368744177664) * 100" "5333"] by simp
  have a18: "to_float (5333 / 100) = Fin (3752765126994821 / 70368744177664)"
    using to_float_near [of "5" "(5333 / 100)" "7505530253989642"] by (simp add: pow2_def)
  have a19: "float_round2 (fadd (fmul (fmul (to_float (1 / 3)) (Fin 100)) (Fin (7 / 10))) (fmul (Fin 100) (Fin (3 / 10)))) = Fin (3752765126994821 / 70368744177664)"
    using float_round2_fin [OF a16 a15 a17, of "(3752765126994821 / 70368744177664)"] a18 by simp
  show ?thesis
    using a16 a19 a18 by (simp add: skills_match_score [OF demo_sets] demo_recall)
qed

lemma wide_sets:
  "job_required_skills (PDict [(''requirements'',
          PDict [(''required_skills'',
                  PList [PStr ''a'', PStr ''b'', PStr ''c'', PStr ''d'', PStr ''e'', PStr ''f'', PStr ''g'', PStr ''h'', PStr ''i'', PStr ''j'', PStr ''k'', PStr ''l'', PStr ''m'', PStr ''n'', PStr ''o'', PStr ''p'']),
                 (''preferred_skills'', PList [PStr ''z''])])])
   = Inr {AStr ''a'', AStr ''b'', AStr ''c'', AStr ''d'', AStr ''e'', AStr ''f'', AStr ''g'', AStr ''h'', AStr ''i'', AStr ''j'', AStr ''k'', AStr ''l'', AStr ''m'', AStr ''n'', AStr ''o'', AStr ''p''}"
  "job_preferred_skills (PDict [(''requirements'',
          PDict [(''required_skills'',
                  PList [PStr ''a'', PStr ''b'', PStr ''c'', PStr ''d'', PStr ''e'', PStr ''f'', PStr ''g'', PStr ''h'', PStr ''i'', PStr ''j'', PStr ''k'', PStr ''l'', PStr ''m'', PStr ''n'', PStr ''o'', PStr ''p'']),
                 (''preferred_skills'', PList [PStr ''z''])])])
   = Inr {AStr ''z''}"
  "cv_technical_skills (PDict [(''skills'', PDict [(''technical_skills'',
          PList [PStr ''a'', PStr ''b'', PStr ''c'', PStr ''d'', PStr ''e'', PStr ''f'', PStr ''g'', PStr ''h'', PStr ''i'', PStr ''j'', PStr ''k'', PStr ''l'', PStr ''m''])])])
   = Inr {AStr ''a'', AStr ''b'', AStr ''c'', AStr ''d'', AStr ''e'', AStr ''f'', AStr ''g'', AStr ''h'', AStr ''i'', AStr ''j'', AStr ''k'', AStr ''l'', AStr ''m''}"
  by (simp_all add: job_required_skills_def job_preferred_skills_def cv_technical_skills_def
      bind_exn_def py_get_def py_set_def py_iter_def py_hashable_def)

lemma wide_recall:
  "spec_recall {AStr ''a'', AStr ''b'', AStr ''c'', AStr ''d'', AStr ''e'', AStr ''f'', AStr ''g'', AStr ''h'', AStr ''i'', AStr ''j'', AStr ''k'', AStr ''l'', AStr ''m''}
     {AStr ''a'', AStr ''b'', AStr ''c'', AStr ''d'', AStr ''e'', AStr ''f'', AStr ''g'', AStr ''h'', AStr ''i'', AStr ''j'', AStr ''k'', AStr ''l'', AStr ''m'', AStr ''n'', AStr ''o'', AStr ''p''}
   = fmul (to_float (13 / 16)) (Fin 100)"
  "spec_recall {AStr ''a'', AStr ''b'', AStr ''c'', AStr ''d'', AStr ''e'', AStr ''f'', AStr ''g'', AStr ''h'', AStr ''i'', AStr ''j'', AStr ''k'', AStr ''l'', AStr ''m''} {AStr ''z''}
   = fmul (to_float 0) (Fin 100)"
  by (simp_all add: spec_recall_def)

text \<open>
  Claim C6, amended.  For every CV analysis and job analysis whose three skill fields
  can be read as sets, the skills match score is the required-skill recall weighted 0.7
  plus the preferred-skill recall weighted 0.3, rounded to two decimals, all in float
  arithmetic, where a recall is the size of the intersection of the CV skills with the
  requirement set over the size of the requirement set, times 100, and 100 for an empty
  requirement set.
\<close>

theorem skills_match_weighted_recall:
  assumes "job_required_skills job = Inr R" "job_preferred_skills job = Inr P"
    "cv_technical_skills cv = Inr C"
  shows "sm_score (calculate_skills_match cv job)
           = float_round2 (fadd (fmul (spec_recall C R) (Fin 0.7))
                                (fmul (spec_recall C P) (Fin 0.3)))
         \<and> spec_recall C R
           = (if R = {} then Fin 100
              else fmul (to_float (real (card (C \<inter> R)) / real (card R))) (Fin 100))
         \<and> spec_recall C P
           = (if P = {} then Fin 100
              else fmul (to_float (real (card (C \<inter> P)) / real (card P))) (Fin 100))"
  using skills_match_score [OF assms] by (simp add: spec_recall_def)

theorem skills_match_weighted_recall_witness:
  "sm_score (calculate_skills_match
       (PDict [(''skills'', PDict [(''technical_skills'',
          PList [PStr ''a'', PStr ''b'', PStr ''c'', PStr ''d'', PStr ''e'', PStr ''f'', PStr ''g'', PStr ''h'', PStr ''i'', PStr ''j'', PStr ''k'', PStr ''l'', PStr ''m''])])])
       (PDict [(''requirements'',
          PDict [(''required_skills'',
                  PList [PStr ''a'', PStr ''b'', PStr ''c'', PStr ''d'', PStr ''e'', PStr ''f'', PStr ''g'', PStr ''h'', PStr ''i'', PStr ''j'', PStr ''k'', PStr ''l'', PStr ''m'', PStr ''n'', PStr ''o'', PStr ''p'']),
                 (''preferred_skills'', PList [PStr ''z''])])]))
   = to_float 56.87"
proof -
  have b1: "to_float (13 / 16) = Fin (13 / 16)"
    using to_float_near [of "-1" "(13 / 16)" "7318349394477056"] by (simp add: pow2_def)
  have b2: "to_float 0 = Fin 0" by (rule to_float_zero)
  have b3: "to_float 100 = Fin 100"
    using to_float_near [of "6" "100" "7036874417766400"] by (simp add: pow2_def)
  have b4: "to_float (325 / 4) = Fin (325 / 4)"
    using to_float_near [of "6" "(325 / 4)" "5717460464435200"] by (simp add: pow2_def)
  have b5: "fmul (to_float (13 / 16)) (Fin 100) = Fin (325 / 4)"
    using fmul_fin [OF b1 refl b1 b3, of "(325 / 4)"] b4 by simp
  have b6: "fmul (to_float 0) (Fin 100) = Fin 0"
    using fmul_fin [OF b2 refl b2 b3, of "0"] b2 by simp
  have b7: "to_float (7 / 10) = Fin (3152519739159347 / 4503599627370496)"
    using to_float_near [of "-1" "(7 / 10)" "6305039478318694"] by (simp add: pow2_def)
  have b8: "to_float (1024568915226787775 / 18014398509481984) = Fin (8004444650209279 / 140737488355328)"
    using to_float_near [of "5" "(1024568915226787775 / 18014398509481984)" "8004444650209279"] by (simp add: pow2_def)
  have b9: "fmul (fmul (to_float (13 / 16)) (Fin 100)) (Fin (7 / 10)) = Fin (8004444650209279 / 140737488355328)"
    using fmul_fin [OF b5 refl b4 b7, of "(8004444650209279 / 140737488355328)"] b8 by simp
  have b10: "to_float (3 / 10) = Fin (5404319552844595 / 18014398509481984)"
    using to_float_near [of "-2" "(3 / 10)" "5404319552844595"] by (simp add: pow2_def)
  have b11: "fmul (fmul (to_float 0) (Fin 100)) (Fin (3 / 10)) = Fin 0"
    using fmul_fin [OF b6 refl b2 b10, of "0"] b2 by simp
  have b12: "to_float (8004444650209279 / 140737488355328) = Fin (8004444650209279 / 140737488355328)"
    using to_float_near [of "5" "(8004444650209279 / 140737488355328)" "8004444650209279"] by (simp add: pow2_def)
  have b13: "fadd (fmul (fmul (to_float (13 / 16)) (Fin 100)) (Fin (7 / 10))) (fmul (fmul (to_float 0) (Fin 100)) (Fin (3 / 10))) = Fin (8004444650209279 / 140737488355328)"
    using fadd_fin [OF b9 b11 b12 b2, of "(8004444650209279 / 140737488355328)"] b12 by simp
  have b14: "py_round_int ((8004444650209279 / 140737488355328) * 100) = 5687"
    using py_round_int_near [of "(8004444650209279 / 140737488355328) * 100" "5687"] by simp
  have b15: "to_float (5687 / 100) = Fin (8003740962767503 / 140737488355328)"
    using to_float_near [of "5" "(5687 / 100)" "8003740962767503"] by (simp add: pow2_def)
  have b16: "float_round2 (fadd (fmul (fmul (to_float (13 / 16)) (Fin 100)) (Fin (7 / 10))) (fmul (fmul (to_float 0) (Fin 100)) (Fin (3 / 10)))) = Fin (8003740962767503 / 140737488355328)"
    using float_round2_fin [OF b13 b12 b14, of "(8003740962767503 / 140737488355328)"] b15 by simp
  show ?thesis
    using skills_match_weighted_recall [OF wide_sets] b16 b15
    by (simp add: wide_recall)
qed

subsection \<open>The overall match\<close>

lemma weighted_match_score_eq:
  "weighted_match_score a b c
   = fadd (fadd (fmul a (Fin 0.4)) (fmul b (Fin 0.3))) (fmul c (Fin 0.2))"
  by (simp add: weighted_match_score_def matching_weights_values)

lemma match_cv_to_job_returns:
  assumes "match_cv_to_job repr_of analyze_cv analyze_job cv_text job_description = Inr m"
  shows "\<exists>cv job. analyze_cv cv_text = Inr cv \<and> analyze_job job_description = Inr job
           \<and> skills_match m = calculate_skills_match cv job
           \<and> experience_match m = calculate_experience_match cv job
           \<and> education_match m = calculate_education_match repr_of cv job
           \<and> om_score (overall_match m)
               = float_round2 (weighted_match_score (sm_score (skills_match m))
                   (ex_score (experience_match m)) (ed_score (education_match m)))"
  using assms
  by (auto simp: match_cv_to_job_def bind_exn_def Let_def split: sum.splits)

lemma all_hundred_score:
  "float_round2 (fadd (fadd (fmul (Fin 100) (Fin 0.4)) (fmul (Fin 100) (Fin 0.3)))
                      (fmul (Fin 100) (Fin 0.2))) = Fin 90"
proof -
  have a1: "to_float 100 = Fin 100"
    using to_float_near [of "6" "100" "7036874417766400"] by (simp add: pow2_def)
  have a2: "to_float (2 / 5) = Fin (3602879701896397 / 9007199254740992)"
    using to_float_near [of "-2" "(2 / 5)" "7205759403792794"] by (simp add: pow2_def)
  have a3: "to_float (90071992547409925 / 2251799813685248) = Fin 40"
    using to_float_near [of "5" "(90071992547409925 / 2251799813685248)" "5629499534213120"] by (simp add: pow2_def)
  have a4: "fmul (Fin 100) (Fin (2 / 5)) = Fin 40"
    using fmul_fin [OF refl refl a1 a2, of "40"] a3 by simp
  have a5: "to_float (3 / 10) = Fin (5404319552844595 / 18014398509481984)"
    using to_float_near [of "-2" "(3 / 10)" "5404319552844595"] by (simp add: pow2_def)
  have a6: "to_float (135107988821114875 / 4503599627370496) = Fin 30"
    using to_float_near [of "4" "(135107988821114875 / 4503599627370496)" "8444249301319680"] by (simp add: pow2_def)
  have a7: "fmul (Fin 100) (Fin (3 / 10)) = Fin 30"
    using fmul_fin [OF refl refl a1 a5, of "30"] a6 by simp
  have a8: "to_float 40 = Fin 40"
    using to_float_near [of "5" "40" "5629499534213120"] by (simp add: pow2_def)
  have a9: "to_float 30 = Fin 30"
    using to_float_near [of "4" "30" "8444249301319680"] by (simp add: pow2_def)
  have a10: "to_float 70 = Fin 70"
    using to_float_near [of "6" "70" "4925812092436480"] by (simp add: pow2_def)
  have a11: "fadd (fmul (Fin 100) (Fin (2 / 5))) (fmul (Fin 100) (Fin (3 / 10))) = Fin 70"
    using fadd_fin [OF a4 a7 a8 a9, of "70"] a10 by simp
  have a12: "to_float (1 / 5) = Fin (3602879701896397 / 18014398509481984)"
    using to_float_near [of "-3" "(1 / 5)" "7205759403792794"] by (simp add: pow2_def)
  have a13: "to_float (90071992547409925 / 4503599627370496) = Fin 20"
    using to_float_near [of "4" "(90071992547409925 / 4503599627370496)" "5629499534213120"] by (simp add: pow2_def)
  have a14: "fmul (Fin 100) (Fin (1 / 5)) = Fin 20"
    using fmul_fin [OF refl refl a1 a12, of "20"] a13 by simp
  have a15: "to_float 20 = Fin 20"
    using to_float_near [of "4" "20" "5629499534213120"] by (simp add: pow2_def)
  have a16: "to_float 90 = Fin 90"
    using to_float_near [of "6" "90" "6333186975989760"] by (simp add: pow2_def)
  have a17: "fadd (fadd (fmul (Fin 100) (Fin (2 / 5))) (fmul (Fin 100) (Fin (3 / 10)))) (fmul (Fin 100) (Fin (1 / 5))) = Fin 90"
    using fadd_fin [OF a11 a14 a10 a15, of "90"] a16 by simp
  have a18: "py_round_int (90 * 100) = 9000"
    using py_round_int_near [of "90 * 100" "9000"] by simp
  have a19: "float_round2 (fadd (fadd (fmul (Fin 100) (Fin (2 / 5))) (fmul (Fin 100) (Fin (3 / 10)))) (fmul (Fin 100) (Fin (1 / 5)))) = Fin 90"
    using float_round2_fin [OF a17 a16 a18, of "90"] a16 by simp
  show ?thesis using a19 by simp
qed

text \<open>
  Claim C5.  Whenever \<^verbatim>\<open>match_cv_to_job\<close> returns, its three sub-results are those of
  the three calculators on the two analyses, and the overall score is
  skills*0.4 + experience*0.3 + education*0.2, computed in float arithmetic from the
  left and rounded to two decimals.  The three weights sum to 0.9, so when all three
  sub-scores are 100 the overall score is 90, not 100.
\<close>

theorem match_cv_to_job_overall_score:
  assumes "match_cv_to_job repr_of analyze_cv analyze_job cv_text job_description = Inr m"
  shows "(\<exists>cv job. analyze_cv cv_text = Inr cv \<and> analyze_job job_description = Inr job
           \<and> skills_match m = calculate_skills_match cv job
           \<and> experience_match m = calculate_experience_match cv job
           \<and> education_match m = calculate_education_match repr_of cv job)
         \<and> om_score (overall_match m)
             = float_round2
                 (fadd (fadd (fmul (sm_score (skills_match m)) (Fin 0.4))
                             (fmul (ex_score (experience_match m)) (Fin 0.3)))
                       (fmul (ed_score (education_match m)) (Fin 0.2)))
         \<and> weight_of matching_weights ''required_skills'' + weight_of matching_weights ''experience''
             + weight_of matching_weights ''education'' = 0.9
         \<and> (sm_score (skills_match m) = Fin 100 \<and> ex_score (experience_match m) = Fin 100
              \<and> ed_score (education_match m) = Fin 100
             \<longrightarrow> om_score (overall_match m) = Fin 90 \<and> om_score (overall_match m) \<noteq> Fin 100)"
proof -
  from match_cv_to_job_returns [OF assms] obtain cv job where
    a: "analyze_cv cv_text = Inr cv \<and> analyze_job job_description = Inr job
           \<and> skills_match m = calculate_skills_match cv job
           \<and> experience_match m = calculate_experience_match cv job
           \<and> education_match m = calculate_education_match repr_of cv job"
    and s0: "om_score (overall_match m)
               = float_round2 (weighted_match_score (sm_score (skills_match m))
                   (ex_score (experience_match m)) (ed_score (education_match m)))"
    by blast
  have s: "om_score (overall_match m)
             = float_round2
                 (fadd (fadd (fmul (sm_score (skills_match m)) (Fin 0.4))
                             (fmul (ex_score (experience_match m)) (Fin 0.3)))
                       (fmul (ed_score (education_match m)) (Fin 0.2)))"
    using s0 by (simp only: weighted_match_score_eq)
  have w: "weight_of matching_weights ''required_skills'' + weight_of matching_weights ''experience''
             + weight_of matching_weights ''education'' = 0.9"
    by (simp add: matching_weights_values)
  have h: "sm_score (skills_match m) = Fin 100 \<and> ex_score (experience_match m) = Fin 100
              \<and> ed_score (education_match m) = Fin 100
             \<longrightarrow> om_score (overall_match m) = Fin 90 \<and> om_score (overall_match m) \<noteq> Fin 100"
    using s all_hundred_score by simp
  from a have e: "\<exists>cv job. analyze_cv cv_text = Inr cv \<and> analyze_job job_description = Inr job
           \<and> skills_match m = calculate_skills_match cv job
           \<and> experience_match m = calculate_experience_match cv job
           \<and> education_match m = calculate_education_match repr_of cv job"
    by blast
  show ?thesis using e s w h by blast
qed

lemma scenario_sets:
  "job_required_skills (PDict [(''requirements'',
        PDict [(''required_skills'', PList [PStr ''Python'']),
               (''preferred_skills'', PList []),
               (''experience'', e),
               (''education'', d)])])
   = Inr {AStr ''Python''}"
  "job_preferred_skills (PDict [(''requirements'',
        PDict [(''required_skills'', PList [PStr ''Python'']),
               (''preferred_skills'', PList []),
               (''experience'', e),
               (''education'', d)])])
   = Inr {}"
  "cv_technical_skills (PDict ((''skills'',
        PDict [(''technical_skills'', PList [PStr ''Python'', PStr ''SQL''])]) # rest))
   = Inr {AStr ''Python'', AStr ''SQL''}"
  by (simp_all add: job_required_skills_def job_preferred_skills_def cv_technical_skills_def
      bind_exn_def py_get_def py_set_def py_iter_def py_hashable_def)

lemma scenario_recall:
  "spec_recall {AStr ''Python'', AStr ''SQL''} {AStr ''Python''} = fmul (to_float 1) (Fin 100)"
  "spec_recall {AStr ''Python'', AStr ''SQL''} {} = Fin 100"
  by (simp_all add: spec_recall_def)

theorem match_cv_to_job_overall_score_witness:
  "(\<exists>m. match_cv_to_job (\<lambda>v. [])
     (\<lambda>t. Inr (PDict [(''skills'', PDict [(''technical_skills'', PList [PStr ''Python'', PStr ''SQL''])]),
             (''experience'', PDict [(''years'', PInt 5)])]))
     (\<lambda>t. Inr (PDict [(''requirements'',
        PDict [(''required_skills'', PList [PStr ''Python'']),
               (''preferred_skills'', PList []),
               (''experience'', PStr ''3+ years''),
               (''education'', PStr [])])]))
     ''cv'' ''job'' = Inr m
        \<and> sm_score (skills_match m) = Fin 100
        \<and> ex_score (experience_match m) = Fin 100
        \<and> ed_score (education_match m) = Fin 100
        \<and> om_score (overall_match m) = Fin 90
        \<and> om_match_level (overall_match m) = ''Excellent Match'')
   \<and> (\<exists>m. match_cv_to_job (\<lambda>v. [])
     (\<lambda>t. Inr (PDict [(''skills'', PDict [(''technical_skills'', PList [PStr ''Python'', PStr ''SQL''])]),
             (''experience'', PDict [(''years'', PInt 2)]),
             (''education'', PStr ''bachelor'')]))
     (\<lambda>t. Inr (PDict [(''requirements'',
        PDict [(''required_skills'', PList [PStr ''Python'']),
               (''preferred_skills'', PList []),
               (''experience'', PStr ''7 years''),
               (''education'', PStr ''master'')])]))
     ''cv'' ''job'' = Inr m
        \<and> sm_score (skills_match m) = Fin 100
        \<and> ex_score (experience_match m) = to_float 28.57
        \<and> ed_score (education_match m) = to_float 66.67
        \<and> om_score (overall_match m) = to_float 61.91
        \<and> om_match_level (overall_match m) = ''Good Match'')"
proof -
  let ?cvA = "PDict [(''skills'', PDict [(''technical_skills'', PList [PStr ''Python'', PStr ''SQL''])]),
             (''experience'', PDict [(''years'', PInt 5)])]"
  let ?jobA = "PDict [(''requirements'',
        PDict [(''required_skills'', PList [PStr ''Python'']),
               (''preferred_skills'', PList []),
               (''experience'', PStr ''3+ years''),
               (''education'', PStr [])])]"
  let ?cvB = "PDict [(''skills'', PDict [(''technical_skills'', PList [PStr ''Python'', PStr ''SQL''])]),
             (''experience'', PDict [(''years'', PInt 2)]),
             (''education'', PStr ''bachelor'')]"
  let ?jobB = "PDict [(''requirements'',
        PDict [(''required_skills'', PList [PStr ''Python'']),
               (''preferred_skills'', PList []),
               (''experience'', PStr ''7 years''),
               (''education'', PStr ''master'')])]"
  have b1: "to_float 1 = Fin 1"
    using to_float_near [of "0" "1" "4503599627370496"] by (simp add: pow2_def)
  have b2: "to_float 100 = Fin 100"
    using to_float_near [of "6" "100" "7036874417766400"] by (simp add: pow2_def)
  have b3: "fmul (to_float 1) (Fin 100) = Fin 100"
    using fmul_fin [OF b1 refl b1 b2, of "100"] b2 by simp
  have b4: "to_float (7 / 10) = Fin (3152519739159347 / 4503599627370496)"
    using to_float_near [of "-1" "(7 / 10)" "6305039478318694"] by (simp add: pow2_def)
  have b5: "to_float (78812993478983675 / 1125899906842624) = Fin 70"
    using to_float_near [of "6" "(78812993478983675 / 1125899906842624)" "4925812092436480"] by (simp add: pow2_def)
  have b6: "fmul (fmul (to_float 1) (Fin 100)) (Fin (7 / 10)) = Fin 70"
    using fmul_fin [OF b3 refl b2 b4, of "70"] b5 by simp
  have b7: "to_float (3 / 10) = Fin (5404319552844595 / 18014398509481984)"
    using to_float_near [of "-2" "(3 / 10)" "5404319552844595"] by (simp add: pow2_def)
  have b8: "to_float (135107988821114875 / 4503599627370496) = Fin 30"
    using to_float_near [of "4" "(135107988821114875 / 4503599627370496)" "8444249301319680"] by (simp add: pow2_def)
  have b9: "fmul (Fin 100) (Fin (3 / 10)) = Fin 30"
    using fmul_fin [OF refl refl b2 b7, of "30"] b8 by simp
  have b10: "to_float 70 = Fin 70"
    using to_float_near [of "6" "70" "4925812092436480"] by (simp add: pow2_def)
  have b11: "to_float 30 = Fin 30"
    using to_float_near [of "4" "30" "8444249301319680"] by (simp add: pow2_def)
  have b12: "fadd (fmul (fmul (to_float 1) (Fin 100)) (Fin (7 / 10))) (fmul (Fin 100) (Fin (3 / 10))) = Fin 100"
    using fadd_fin [OF b6 b9 b10 b11, of "100"] b2 by simp
  have b13: "py_round_int (100 * 100) = 10000"
    using py_round_int_near [of "100 * 100" "10000"] by simp
  have b14: "float_round2 (fadd (fmul (fmul (to_float 1) (Fin 100)) (Fin (7 / 10))) (fmul (Fin 100) (Fin (3 / 10)))) = Fin 100"
    using float_round2_fin [OF b12 b2 b13, of "100"] b2 by simp
  have b15: "py_round_int (100 * 100) = 10000"
    using py_round_int_near [of "100 * 100" "10000"] by simp
  have b16: "float_round2 (Fin 100) = Fin 100"
    using float_round2_fin [OF refl b2 b15, of "100"] b2 by simp
  have b17: "to_float (2 / 5) = Fin (3602879701896397 / 9007199254740992)"
    using to_float_near [of "-2" "(2 / 5)" "7205759403792794"] by (simp add: pow2_def)
  have b18: "to_float (90071992547409925 / 2251799813685248) = Fin 40"
    using to_float_near [of "5" "(90071992547409925 / 2251799813685248)" "5629499534213120"] by (simp add: pow2_def)
  have b19: "fmul (Fin 100) (Fin (2 / 5)) = Fin 40"
    using fmul_fin [OF refl refl b2 b17, of "40"] b18 by simp
  have b20: "fmul (Fin 100) (Fin (3 / 10)) = Fin 30"
    using fmul_fin [OF refl refl b2 b7, of "30"] b8 by simp
  have b21: "to_float 40 = Fin 40"
    using to_float_near [of "5" "40" "5629499534213120"] by (simp add: pow2_def)
  have b22: "fadd (fmul (Fin 100) (Fin (2 / 5))) (fmul (Fin 100) (Fin (3 / 10))) = Fin 70"
    using fadd_fin [OF b19 b20 b21 b11, of "70"] b10 by simp
  have b23: "to_float (1 / 5) = Fin (3602879701896397 / 18014398509481984)"
    using to_float_near [of "-3" "(1 / 5)" "7205759403792794"] by (simp add: pow2_def)
  have b24: "to_float (90071992547409925 / 4503599627370496) = Fin 20"
    using to_float_near [of "4" "(90071992547409925 / 4503599627370496)" "5629499534213120"] by (simp add: pow2_def)
  have b25: "fmul (Fin 100) (Fin (1 / 5)) = Fin 20"
    using fmul_fin [OF refl refl b2 b23, of "20"] b24 by simp
  have b26: "to_float 20 = Fin 20"
    using to_float_near [of "4" "20" "5629499534213120"] by (simp add: pow2_def)
  have b27: "to_float 90 = Fin 90"
    using to_float_near [of "6" "90" "6333186975989760"] by (simp add: pow2_def)
  have b28: "fadd (fadd (fmul (Fin 100) (Fin (2 / 5))) (fmul (Fin 100) (Fin (3 / 10)))) (fmul (Fin 100) (Fin (1 / 5))) = Fin 90"
    using fadd_fin [OF b22 b25 b10 b26, of "90"] b27 by simp
  have b29: "py_round_int (90 * 100) = 9000"
    using py_round_int_near [of "90 * 100" "9000"] by simp
  have b30: "float_round2 (fadd (fadd (fmul (Fin 100) (Fin (2 / 5))) (fmul (Fin 100) (Fin (3 / 10)))) (fmul (Fin 100) (Fin (1 / 5)))) = Fin 90"
    using float_round2_fin [OF b28 b27 b29, of "90"] b27 by simp
  have b31: "to_float (2 / 7) = Fin (2573485501354569 / 9007199254740992)"
    using to_float_near [of "-2" "(2 / 7)" "5146971002709138"] by (simp add: pow2_def)
  have b32: "to_float (2 / 3) = Fin (6004799503160661 / 9007199254740992)"
    using to_float_near [of "-1" "(2 / 3)" "6004799503160661"] by (simp add: pow2_def)
  have b33: "to_float (2573485501354569 / 9007199254740992) = Fin (2573485501354569 / 9007199254740992)"
    using to_float_near [of "-2" "(2573485501354569 / 9007199254740992)" "5146971002709138"] by (simp add: pow2_def)
  have b34: "to_float (64337137533864225 / 2251799813685248) = Fin (2010535547933257 / 70368744177664)"
    using to_float_near [of "4" "(64337137533864225 / 2251799813685248)" "8042142191733028"] by (simp add: pow2_def)
  have b35: "fmul (Fin (2573485501354569 / 9007199254740992)) (Fin 100) = Fin (2010535547933257 / 70368744177664)"
    using fmul_fin [OF refl refl b33 b2, of "(2010535547933257 / 70368744177664)"] b34 by simp
  have b36: "to_float (2010535547933257 / 70368744177664) = Fin (2010535547933257 / 70368744177664)"
    using to_float_near [of "4" "(2010535547933257 / 70368744177664)" "8042142191733028"] by (simp add: pow2_def)
  have b37: "py_round_int ((2010535547933257 / 70368744177664) * 100) = 2857"
    using py_round_int_near [of "(2010535547933257 / 70368744177664) * 100" "2857"] by simp
  have b38: "to_float (2857 / 100) = Fin (4020870042311721 / 140737488355328)"
    using to_float_near [of "4" "(2857 / 100)" "8041740084623442"] by (simp add: pow2_def)
  have b39: "float_round2 (fmul (Fin (2573485501354569 / 9007199254740992)) (Fin 100)) = Fin (4020870042311721 / 140737488355328)"
    using float_round2_fin [OF b35 b36 b37, of "(4020870042311721 / 140737488355328)"] b38 by simp
  have b40: "to_float (6004799503160661 / 9007199254740992) = Fin (6004799503160661 / 9007199254740992)"
    using to_float_near [of "-1" "(6004799503160661 / 9007199254740992)" "6004799503160661"] by (simp add: pow2_def)
  have b41: "to_float (150119987579016525 / 2251799813685248) = Fin (2345624805922133 / 35184372088832)"
    using to_float_near [of "6" "(150119987579016525 / 2251799813685248)" "4691249611844266"] by (simp add: pow2_def)
  have b42: "fmul (Fin (6004799503160661 / 9007199254740992)) (Fin 100) = Fin (2345624805922133 / 35184372088832)"
    using fmul_fin [OF refl refl b40 b2, of "(2345624805922133 / 35184372088832)"] b41 by simp
  have b43: "to_float (2345624805922133 / 35184372088832) = Fin (2345624805922133 / 35184372088832)"
    using to_float_near [of "6" "(2345624805922133 / 35184372088832)" "4691249611844266"] by (simp add: pow2_def)
  have b44: "py_round_int ((2345624805922133 / 35184372088832) * 100) = 6667"
    using py_round_int_near [of "(2345624805922133 / 35184372088832) * 100" "6667"] by simp
  have b45: "to_float (6667 / 100) = Fin (4691484174324859 / 70368744177664)"
    using to_float_near [of "6" "(6667 / 100)" "4691484174324859"] by (simp add: pow2_def)
  have b46: "float_round2 (fmul (Fin (6004799503160661 / 9007199254740992)) (Fin 100)) = Fin (4691484174324859 / 70368744177664)"
    using float_round2_fin [OF b42 b43 b44, of "(4691484174324859 / 70368744177664)"] b45 by simp
  have b47: "fmul (Fin 100) (Fin (2 / 5)) = Fin 40"
    using fmul_fin [OF refl refl b2 b17, of "40"] b18 by simp
  have b48: "to_float (4020870042311721 / 140737488355328) = Fin (4020870042311721 / 140737488355328)"
    using to_float_near [of "4" "(4020870042311721 / 140737488355328)" "8041740084623442"] by (simp add: pow2_def)
  have b49: "to_float (21730066589112307812455259997995 / 2535301200456458802993406410752) = Fin (4825044050774065 / 562949953421312)"
    using to_float_near [of "3" "(21730066589112307812455259997995 / 2535301200456458802993406410752)" "4825044050774065"] by (simp add: pow2_def)
  have b50: "fmul (Fin (4020870042311721 / 140737488355328)) (Fin (3 / 10)) = Fin (4825044050774065 / 562949953421312)"
    using fmul_fin [OF refl refl b48 b7, of "(4825044050774065 / 562949953421312)"] b49 by simp
  have b51: "to_float (4825044050774065 / 562949953421312) = Fin (4825044050774065 / 562949953421312)"
    using to_float_near [of "3" "(4825044050774065 / 562949953421312)" "4825044050774065"] by (simp add: pow2_def)
  have b52: "to_float (27343042187626545 / 562949953421312) = Fin (1708940136726659 / 35184372088832)"
    using to_float_near [of "5" "(27343042187626545 / 562949953421312)" "6835760546906636"] by (simp add: pow2_def)
  have b53: "fadd (fmul (Fin 100) (Fin (2 / 5))) (fmul (Fin (4020870042311721 / 140737488355328)) (Fin (3 / 10))) = Fin (1708940136726659 / 35184372088832)"
    using fadd_fin [OF b47 b50 b21 b51, of "(1708940136726659 / 35184372088832)"] b52 by simp
  have b54: "to_float (4691484174324859 / 70368744177664) = Fin (4691484174324859 / 70368744177664)"
    using to_float_near [of "6" "(4691484174324859 / 70368744177664)" "4691484174324859"] by (simp add: pow2_def)
  have b55: "to_float (16902853103443212210199439633023 / 1267650600228229401496703205376) = Fin (7506374678919775 / 562949953421312)"
    using to_float_near [of "3" "(16902853103443212210199439633023 / 1267650600228229401496703205376)" "7506374678919775"] by (simp add: pow2_def)
  have b56: "fmul (Fin (4691484174324859 / 70368744177664)) (Fin (1 / 5)) = Fin (7506374678919775 / 562949953421312)"
    using fmul_fin [OF refl refl b54 b23, of "(7506374678919775 / 562949953421312)"] b55 by simp
  have b57: "to_float (1708940136726659 / 35184372088832) = Fin (1708940136726659 / 35184372088832)"
    using to_float_near [of "5" "(1708940136726659 / 35184372088832)" "6835760546906636"] by (simp add: pow2_def)
  have b58: "to_float (7506374678919775 / 562949953421312) = Fin (7506374678919775 / 562949953421312)"
    using to_float_near [of "3" "(7506374678919775 / 562949953421312)" "7506374678919775"] by (simp add: pow2_def)
  have b59: "to_float (34849416866546319 / 562949953421312) = Fin (2178088554159145 / 35184372088832)"
    using to_float_near [of "5" "(34849416866546319 / 562949953421312)" "8712354216636580"] by (simp add: pow2_def)
  have b60: "fadd (fadd (fmul (Fin 100) (Fin (2 / 5))) (fmul (Fin (4020870042311721 / 140737488355328)) (Fin (3 / 10)))) (fmul (Fin (4691484174324859 / 70368744177664)) (Fin (1 / 5))) = Fin (2178088554159145 / 35184372088832)"
    using fadd_fin [OF b53 b56 b57 b58, of "(2178088554159145 / 35184372088832)"] b59 by simp
  have b61: "to_float (2178088554159145 / 35184372088832) = Fin (2178088554159145 / 35184372088832)"
    using to_float_near [of "5" "(2178088554159145 / 35184372088832)" "8712354216636580"] by (simp add: pow2_def)
  have b62: "py_round_int ((2178088554159145 / 35184372088832) * 100) = 6191"
    using py_round_int_near [of "(2178088554159145 / 35184372088832) * 100" "6191"] by simp
  have b63: "to_float (6191 / 100) = Fin (2178264476019589 / 35184372088832)"
    using to_float_near [of "5" "(6191 / 100)" "8713057904078356"] by (simp add: pow2_def)
  have b64: "float_round2 (fadd (fadd (fmul (Fin 100) (Fin (2 / 5))) (fmul (Fin (4020870042311721 / 140737488355328)) (Fin (3 / 10)))) (fmul (Fin (4691484174324859 / 70368744177664)) (Fin (1 / 5)))) = Fin (2178264476019589 / 35184372088832)"
    using float_round2_fin [OF b60 b61 b62, of "(2178264476019589 / 35184372088832)"] b63 by simp
  have skA: "sm_score (calculate_skills_match ?cvA ?jobA) = Fin 100"
    using b14 by (simp add: skills_match_score [OF scenario_sets] scenario_recall)
  have skB: "sm_score (calculate_skills_match ?cvB ?jobB) = Fin 100"
    using b14 by (simp add: skills_match_score [OF scenario_sets] scenario_recall)
  have exA: "ex_score (calculate_experience_match ?cvA ?jobA) = Fin 100"
    using b16
    by (simp add: calculate_experience_match_def bind_exn_def py_get_def extract_years_def
        py_isdigit_def int_of_digits_def digit_value_def max_str_digits_def ratio_score_def
        Let_def)
  have exB: "ex_score (calculate_experience_match ?cvB ?jobB) = Fin (4020870042311721 / 140737488355328)"
    using b31 b39
    by (simp add: calculate_experience_match_def bind_exn_def py_get_def extract_years_def
        py_isdigit_def int_of_digits_def digit_value_def max_str_digits_def ratio_score_def
        int_truediv_def Let_def)
  have edA: "ed_score (calculate_education_match (\<lambda>v. []) ?cvA ?jobA) = Fin 100"
    using b16
    by (simp add: calculate_education_match_def bind_exn_def py_get_def py_str_def py_lower_def
        highest_level_def education_levels_def ratio_score_def Let_def)
  have edB: "ed_score (calculate_education_match (\<lambda>v. []) ?cvB ?jobB) = Fin (4691484174324859 / 70368744177664)"
    using b32 b46
    by (simp add: calculate_education_match_def bind_exn_def py_get_def py_str_def py_lower_def
        py_lower_char_def highest_level_def education_levels_def starts_with_def
        ratio_score_def int_truediv_def Let_def)
  let ?mA = "\<lparr>overall_match =
        \<lparr>om_score = float_round2 (weighted_match_score
             (sm_score (calculate_skills_match ?cvA ?jobA))
             (ex_score (calculate_experience_match ?cvA ?jobA))
             (ed_score (calculate_education_match (\<lambda>v. []) ?cvA ?jobA))),
         om_match_level = float_match_level (weighted_match_score
             (sm_score (calculate_skills_match ?cvA ?jobA))
             (ex_score (calculate_experience_match ?cvA ?jobA))
             (ed_score (calculate_education_match (\<lambda>v. []) ?cvA ?jobA)))\<rparr>,
      skills_match = calculate_skills_match ?cvA ?jobA,
      experience_match = calculate_experience_match ?cvA ?jobA,
      education_match = calculate_education_match (\<lambda>v. []) ?cvA ?jobA\<rparr>"
  let ?mB = "\<lparr>overall_match =
        \<lparr>om_score = float_round2 (weighted_match_score
             (sm_score (calculate_skills_match ?cvB ?jobB))
             (ex_score (calculate_experience_match ?cvB ?jobB))
             (ed_score (calculate_education_match (\<lambda>v. []) ?cvB ?jobB))),
         om_match_level = float_match_level (weighted_match_score
             (sm_score (calculate_skills_match ?cvB ?jobB))
             (ex_score (calculate_experience_match ?cvB ?jobB))
             (ed_score (calculate_education_match (\<lambda>v. []) ?cvB ?jobB)))\<rparr>,
      skills_match = calculate_skills_match ?cvB ?jobB,
      experience_match = calculate_experience_match ?cvB ?jobB,
      education_match = calculate_education_match (\<lambda>v. []) ?cvB ?jobB\<rparr>"
  have runA: "match_cv_to_job (\<lambda>v. []) (\<lambda>t. Inr ?cvA) (\<lambda>t. Inr ?jobA) ''cv'' ''job'' = Inr ?mA"
    by (simp only: match_cv_to_job_def bind_exn_def Let_def sum.case)
  have runB: "match_cv_to_job (\<lambda>v. []) (\<lambda>t. Inr ?cvB) (\<lambda>t. Inr ?jobB) ''cv'' ''job'' = Inr ?mB"
    by (simp only: match_cv_to_job_def bind_exn_def Let_def sum.case)
  have lvA: "om_match_level (overall_match ?mA) = ''Excellent Match''"
    using b28 b27
    by (simp add: skA exA edA weighted_match_score_eq float_match_level_def get_match_level_def)
  have lvB: "om_match_level (overall_match ?mB) = ''Good Match''"
    using b60 b61
    by (simp add: skB exB edB weighted_match_score_eq float_match_level_def get_match_level_def)
  have scA: "om_score (overall_match ?mA) = Fin 90"
    using match_cv_to_job_overall_score [OF runA]
    by (simp add: skA exA edA weighted_match_score_eq)
  have scB: "om_score (overall_match ?mB) = Fin (2178264476019589 / 35184372088832)"
    using match_cv_to_job_overall_score [OF runB] b64
    by (simp add: skB exB edB weighted_match_score_eq)
  have A: "\<exists>m. match_cv_to_job (\<lambda>v. []) (\<lambda>t. Inr ?cvA) (\<lambda>t. Inr ?jobA) ''cv'' ''job'' = Inr m
        \<and> sm_score (skills_match m) = Fin 100
        \<and> ex_score (experience_match m) = Fin 100
        \<and> ed_score (education_match m) = Fin 100
        \<and> om_score (overall_match m) = Fin 90
        \<and> om_match_level (overall_match m) = ''Excellent Match''"
    using runA scA lvA skA exA edA by (intro exI [of _ ?mA]) simp
  have B: "\<exists>m. match_cv_to_job (\<lambda>v. []) (\<lambda>t. Inr ?cvB) (\<lambda>t. Inr ?jobB) ''cv'' ''job'' = Inr m
        \<and> sm_score (skills_match m) = Fin 100
        \<and> ex_score (experience_match m) = to_float 28.57
        \<and> ed_score (education_match m) = to_float 66.67
        \<and> om_score (overall_match m) = to_float 61.91
        \<and> om_match_level (overall_match m) = ''Good Match''"
    using runB scB lvB skB exB edB b38 b45 b63
    by (intro exI [of _ ?mB]) simp
  show ?thesis using A B by blast
qed

end
